theory Spec2Isabelle
  imports Main "HOL-Library.Sublist" "HOL-Library.Word"
begin

section \<open>Python values shared by all modules\<close>

text \<open>
  Python strings are modelled as \<open>string\<close> (one \<open>char\<close> per code point, restricted to
  the code points 0..255), \<open>bytes\<close> objects as lists of 8-bit words. An exception is
  represented by the text that \<open>str(e)\<close> yields for it, since that text is all the
  handlers of this program ever read from an exception.
\<close>

type_synonym bytes = "8 word list"

datatype py_exception = PyException (str_of: string)

text \<open>A \<open>dict\<close> with string keys, in insertion order.\<close>

type_synonym 'v py_dict = "(string \<times> 'v) list"

definition dict_get :: "'v py_dict \<Rightarrow> string \<Rightarrow> 'v \<Rightarrow> 'v" where
  "dict_get d k dflt = (case map_of d k of Some v \<Rightarrow> v | None \<Rightarrow> dflt)"

text \<open>\<open>state.get(key, default)\<close> on a key of the state that may be absent.\<close>

definition get_or :: "'a option \<Rightarrow> 'a \<Rightarrow> 'a" where
  "get_or v dflt = (case v of Some x \<Rightarrow> x | None \<Rightarrow> dflt)"

text \<open>\<open>sep.join(xs)\<close>\<close>

fun join :: "string \<Rightarrow> string list \<Rightarrow> string" where
  "join sep [] = []"
| "join sep [x] = x"
| "join sep (x # y # ys) = x @ sep @ join sep (y # ys)"

section \<open>\<open>json.dumps(..., ensure_ascii=True)\<close> on the payloads the agents log\<close>

datatype json_atom = JStr string | JBool bool

definition hex_digit :: "nat \<Rightarrow> char" where
  "hex_digit n = (''0123456789abcdef'') ! (n mod 16)"

text \<open>
  With \<open>ensure_ascii\<close>, every character outside the range space..tilde is escaped, as
  are the quote and the backslash.
\<close>

definition json_escape_char :: "char \<Rightarrow> string" where
  "json_escape_char c =
     (let n = (of_char c :: nat) in
      if c = CHR ''\"'' then [CHR 0x5C, CHR ''\"'']
      else if c = CHR 0x5C then [CHR 0x5C, CHR 0x5C]
      else if n = 10 then [CHR 0x5C, CHR ''n'']
      else if n = 13 then [CHR 0x5C, CHR ''r'']
      else if n = 9 then [CHR 0x5C, CHR ''t'']
      else if n = 12 then [CHR 0x5C, CHR ''f'']
      else if n = 8 then [CHR 0x5C, CHR ''b'']
      else if n < 32 \<or> 126 < n
        then [CHR 0x5C, CHR ''u'', CHR ''0'', CHR ''0'', hex_digit (n div 16), hex_digit n]
      else [c])"

definition json_string :: "string \<Rightarrow> string" where
  "json_string s = [CHR ''\"''] @ concat (map json_escape_char s) @ [CHR ''\"'']"

fun json_atom_dumps :: "json_atom \<Rightarrow> string" where
  "json_atom_dumps (JStr s) = json_string s"
| "json_atom_dumps (JBool b) = (if b then ''true'' else ''false'')"

definition json_dumps_dict :: "json_atom py_dict \<Rightarrow> string" where
  "json_dumps_dict d =
     ''{'' @ join '', '' (map (\<lambda>(k, v). json_string k @ '': '' @ json_atom_dumps v) d) @ ''}''"

definition json_dumps_list :: "json_atom list \<Rightarrow> string" where
  "json_dumps_list xs = ''['' @ join '', '' (map json_atom_dumps xs) @ '']''"

section \<open>\<open>app/agents/state.py\<close>: the shared state\<close>

text \<open>
  The timestamp of an entry is the clock reading truncated to whole seconds
  (\<open>replace(microsecond=0)\<close>), kept as the number of seconds since the epoch; its
  rendering by \<open>isoformat()\<close> is a fixed-width text of that number and is not modelled.
\<close>

record AgentLogEntry =
  agent :: string
  message :: string
  level :: string
  timestamp :: nat
  details :: "string option"

text \<open>
  \<open>AgentState\<close> is a \<open>TypedDict\<close>, that is a plain \<open>dict\<close> at run time: a key may be
  missing, which is \<open>None\<close> here. For \<open>generated_image_url\<close> and
  \<open>image_generation_error\<close> the Python value \<open>None\<close> is \<open>None\<close> as well (the code only
  reads them through \<open>state.get\<close>, which does not tell the two apart).
\<close>

record AgentState =
  original_image :: "bytes option"
  user_query :: "string option"
  visual_analysis :: "string py_dict option"
  trend_summary :: "string option"
  final_report :: "string option"
  generated_image_url :: "string option"
  generation_prompt :: "string option"
  agent_logs :: "AgentLogEntry list option"
  analysis_mode :: "string option"
  image_generation_error :: "string option"

section \<open>\<open>app/utils/logs.py\<close>\<close>

text \<open>The \<open>details\<close> argument of \<open>append_agent_log\<close>, by its run-time type.\<close>

datatype details_arg =
    DetDict "json_atom py_dict"
  | DetList "json_atom list"
  | DetStr string

definition details_text :: "details_arg \<Rightarrow> string" where
  "details_text d =
     (case d of
        DetDict kv \<Rightarrow> take 800 (json_dumps_dict kv)
      | DetList xs \<Rightarrow> take 800 (json_dumps_list xs)
      | DetStr s \<Rightarrow> s)"

text \<open>
  \<open>now\<close> is what \<open>datetime.now(timezone.utc)\<close> returns at the call, in microseconds
  since the epoch. The state is mutated in place in the source and returned here.
\<close>

definition append_agent_log ::
  "nat \<Rightarrow> AgentState \<Rightarrow> string \<Rightarrow> string \<Rightarrow> string \<Rightarrow> details_arg option \<Rightarrow> AgentState" where
  "append_agent_log now state ag msg lvl det =
     (let logs = get_or (agent_logs state) [];
          entry = \<lparr> agent = ag, message = msg, level = lvl,
                    timestamp = now div 1000000,
                    details = map_option details_text det \<rparr>
      in state\<lparr> agent_logs := Some (logs @ [entry]) \<rparr>)"

section \<open>\<open>app/routers/analyze.py\<close>: the extension check\<close>

definition MAX_FILE_SIZE :: nat where
  "MAX_FILE_SIZE = 10 * 1024 * 1024"

definition ALLOWED_EXTENSIONS :: "string set" where
  "ALLOWED_EXTENSIONS = {''png'', ''jpg'', ''jpeg'', ''gif'', ''webp''}"

definition DEFAULT_QUERY :: string where
  "DEFAULT_QUERY = ''What should I wear for a wedding?''"

text \<open>\<open>str.lower()\<close> on the code points 0..255.\<close>

definition lower_char :: "char \<Rightarrow> char" where
  "lower_char c =
     (let n = (of_char c :: nat) in
      if (65 \<le> n \<and> n \<le> 90) \<or> (192 \<le> n \<and> n \<le> 222 \<and> n \<noteq> 215)
      then char_of (n + 32) else c)"

definition lower :: "string \<Rightarrow> string" where
  "lower s = map lower_char s"

text \<open>\<open>s.rfind(c)\<close>: the index of the last occurrence, \<open>None\<close> for Python's \<open>-1\<close>.\<close>

fun rfind :: "char \<Rightarrow> string \<Rightarrow> nat option" where
  "rfind c [] = None"
| "rfind c (x # xs) =
     (case rfind c xs of
        Some i \<Rightarrow> Some (Suc i)
      | None \<Rightarrow> if x = c then Some 0 else None)"

text \<open>\<open>s.rsplit(sep, 1)\<close> for a separator of one character.\<close>

definition rsplit1 :: "char \<Rightarrow> string \<Rightarrow> string list" where
  "rsplit1 sep s =
     (case rfind sep s of
        None \<Rightarrow> [s]
      | Some i \<Rightarrow> [take i s, drop (Suc i) s])"

text \<open>\<open>xs[i]\<close> for \<open>i \<ge> 0\<close>; out of range raises \<open>IndexError\<close>.\<close>

definition list_index :: "'a list \<Rightarrow> nat \<Rightarrow> py_exception + 'a" where
  "list_index xs i =
     (if i < length xs then Inr (xs ! i)
      else Inl (PyException ''list index out of range''))"

definition allowed_file :: "string \<Rightarrow> py_exception + bool" where
  "allowed_file filename =
     (if CHR ''.'' \<in> set filename
      then (case list_index (rsplit1 CHR ''.'' filename) 1 of
              Inl e \<Rightarrow> Inl e
            | Inr ext \<Rightarrow> Inr (lower ext \<in> ALLOWED_EXTENSIONS))
      else Inr False)"

text \<open>
  The wording of the specification: the text after the last dot of the name.
\<close>

definition after_last_dot :: "string \<Rightarrow> string" where
  "after_last_dot s = rev (takeWhile (\<lambda>c. c \<noteq> CHR ''.'') (rev s))"

definition spec_allowed :: "string \<Rightarrow> bool" where
  "spec_allowed filename \<longleftrightarrow>
     CHR ''.'' \<in> set filename \<and> lower (after_last_dot filename) \<in> ALLOWED_EXTENSIONS"

section \<open>The external services\<close>

text \<open>
  Every call that leaves the program is a field of the environment: it either raises
  (\<open>Inl e\<close>) or returns (\<open>Inr v\<close>). Nothing is assumed about what the services do.
\<close>

type_synonym 'a result = "py_exception + 'a"

datatype message_part = MsgText string | MsgImage bytes

text \<open>What \<open>dspy.ChainOfThought(AnalyzeOutfitImage)\<close> returns: the five output fields.\<close>

record VisualFeatures =
  gender_style :: string
  cut :: string
  color :: string
  fabric :: string
  occasion :: string

text \<open>
  The response of \<open>generate_content\<close> for the image model, as far as
  \<open>_extract_image_bytes\<close> probes it. An attribute that is missing or \<open>None\<close> is
  \<open>None\<close>; \<open>data\<close> is told apart by its run-time type. Reading \<open>response.parts\<close>
  can raise: on the response class of the client library it is a property that raises
  \<open>ValueError\<close> unless the response has exactly one candidate, and \<open>hasattr\<close> lets
  every exception but \<open>AttributeError\<close> through. \<open>response_parts\<close> is what reading
  the attribute does: \<open>Inl e\<close> when it raises such an exception, \<open>Inr None\<close> when the
  attribute is missing or \<open>None\<close>.
\<close>

datatype inline_payload = DataBytes bytes | DataStr string | DataOther

record InlineData =
  data :: "inline_payload option"
  mime_type :: "string option"

record FileData =
  file_uri :: "string option"
  file_mime_type :: "string option"

record Part =
  inline_data :: "InlineData option"
  file_data :: "FileData option"

record Content =
  parts :: "Part list option"

record Candidate =
  content :: "Content option"

record Response =
  candidates :: "Candidate list option"
  response_parts :: "Part list option result"

record Env =
  \<comment> \<open>\<open>genai.GenerativeModel(name)\<close>\<close>
  GenerativeModel :: "string \<Rightarrow> unit result"
  \<comment> \<open>\<open>Image.open(io.BytesIO(b))\<close> followed by \<open>load()\<close>; the image is its bytes\<close>
  Image_open :: "bytes \<Rightarrow> bytes result"
  \<comment> \<open>\<open>model.generate_content([prompt, image]).text\<close> of the vision model\<close>
  describe_content :: "string \<Rightarrow> message_part list \<Rightarrow> string result"
  \<comment> \<open>the three DSPy programs\<close>
  AnalyzeOutfitImage :: "string \<Rightarrow> string \<Rightarrow> VisualFeatures result"
  FetchRelevantTrends :: "string \<Rightarrow> string \<Rightarrow> string \<Rightarrow> string result"
  SynthesizeStylingAdvice ::
    "string \<Rightarrow> string \<Rightarrow> string \<Rightarrow> string \<Rightarrow> string \<Rightarrow> string \<Rightarrow> string \<Rightarrow> string result"
  \<comment> \<open>\<open>image_model.generate_content(messages, generation_config=...)\<close>; \<open>None\<close> is a
      falsy response\<close>
  generate_content :: "string \<Rightarrow> message_part list \<Rightarrow> Response option result"
  \<comment> \<open>\<open>base64.b64decode\<close> on a \<open>str\<close>\<close>
  b64decode :: "string \<Rightarrow> bytes result"
  \<comment> \<open>\<open>genai_files.get_file(file_uri).uri\<close>\<close>
  get_file :: "string \<Rightarrow> string option result"
  \<comment> \<open>\<open>urllib.request.urlopen(uri).read()\<close>\<close>
  urlopen_read :: "string \<Rightarrow> bytes result"
  \<comment> \<open>\<open>dspy.LM(model_name, ...)\<close> followed by \<open>dspy.configure(lm=lm)\<close>\<close>
  dspy_configure :: "string \<Rightarrow> unit result"
  \<comment> \<open>the order in which iterating the set \<open>ALLOWED_EXTENSIONS\<close> yields its elements
      in this process (it depends on the hash seed of the interpreter)\<close>
  extension_order :: "string list"

section \<open>\<open>base64.b64encode\<close>\<close>

definition b64_char :: "nat \<Rightarrow> char" where
  "b64_char n =
     (''ABCDEFGHIJKLMNOPQRSTUVWXYZabcdefghijklmnopqrstuvwxyz0123456789+/'') ! (n mod 64)"

fun b64encode :: "bytes \<Rightarrow> string" where
  "b64encode [] = []"
| "b64encode [a] =
     (let n = unat a * 65536
      in [b64_char (n div 262144), b64_char (n div 4096), CHR ''='', CHR ''=''])"
| "b64encode [a, b] =
     (let n = unat a * 65536 + unat b * 256
      in [b64_char (n div 262144), b64_char (n div 4096), b64_char (n div 64), CHR ''=''])"
| "b64encode (a # b # c # rest) =
     (let n = unat a * 65536 + unat b * 256 + unat c
      in [b64_char (n div 262144), b64_char (n div 4096), b64_char (n div 64), b64_char n]
         @ b64encode rest)"

section \<open>\<open>app/agents/multi_model.py\<close>: the vision stage\<close>

definition VISION_MODELS :: "string py_dict" where
  "VISION_MODELS = [(''quick'', ''gemini-2.5-flash''), (''deep'', ''gemini-2.5-pro'')]"

definition IMAGE_MODEL :: string where
  "IMAGE_MODEL = ''gemini-2.5-flash-image''"

definition desc_prompt :: string where
  "desc_prompt = [CHR 0x0A] @
    ''        Describe this outfit image in detail. Include:'' @ [CHR 0x0A] @
    ''        - Gender presentation (masculine/feminine/unisex)'' @ [CHR 0x0A] @
    ''        - Type of garments (shirt, pants, dress, etc.)'' @ [CHR 0x0A] @
    ''        - Style and fit'' @ [CHR 0x0A] @
    ''        - Colors and patterns'' @ [CHR 0x0A] @
    ''        - Apparent fabric types'' @ [CHR 0x0A] @
    ''        - Overall vibe and formality level'' @ [CHR 0x0A] @
    ''        ''"

text \<open>The dictionaries the stages return to the graph.\<close>

record VisionOutput =
  vo_visual_analysis :: "string py_dict"
  vo_agent_logs :: "AgentLogEntry list"

text \<open>
  The body of the \<open>try\<close> block of \<open>analyze_image\<close> up to the result of the analyzer.
  \<open>state["original_image"]\<close> raises \<open>KeyError\<close> when the key is missing.
\<close>

definition analyze_image_try ::
  "Env \<Rightarrow> string \<Rightarrow> bytes option \<Rightarrow> string \<Rightarrow> VisualFeatures result" where
  "analyze_image_try env vision_model image_key query =
     (case GenerativeModel env vision_model of
        Inl e \<Rightarrow> Inl e
      | Inr _ \<Rightarrow>
     (case image_key of
        None \<Rightarrow> Inl (PyException ([CHR 0x27] @ ''original_image'' @ [CHR 0x27]))
      | Some raw \<Rightarrow>
     (case Image_open env raw of
        Inl e \<Rightarrow> Inl e
      | Inr img \<Rightarrow>
     (case describe_content env vision_model [MsgText desc_prompt, MsgImage img] of
        Inl e \<Rightarrow> Inl e
      | Inr image_description \<Rightarrow> AnalyzeOutfitImage env image_description query))))"

definition analyze_image :: "Env \<Rightarrow> nat \<Rightarrow> nat \<Rightarrow> AgentState \<Rightarrow> VisionOutput" where
  "analyze_image env t0 t1 state0 =
     (let mode = get_or (analysis_mode state0) ''deep'';
          vision_model = dict_get VISION_MODELS mode (dict_get VISION_MODELS ''deep'' []);
          state1 = append_agent_log t0 state0 ''vision'' ''Starting image analysis'' ''info''
                     (Some (DetDict [(''mode'', JStr mode), (''model'', JStr vision_model)]))
      in case analyze_image_try env vision_model (original_image state1)
                (get_or (user_query state1) []) of
           Inr result \<Rightarrow>
             (let analysis = [(''gender_style'', gender_style result),
                              (''cut'', cut result),
                              (''color'', color result),
                              (''fabric'', fabric result),
                              (''occasion'', occasion result)];
                  state2 = append_agent_log t1 state1 ''vision'' ''Completed image analysis''
                             ''info'' (Some (DetDict (map (\<lambda>(k, v). (k, JStr v)) analysis)))
              in \<lparr> vo_visual_analysis = analysis,
                   vo_agent_logs = get_or (agent_logs state2) [] \<rparr>)
         | Inl e \<Rightarrow>
             (let analysis = [(''gender_style'', ''unknown''),
                              (''cut'', ''unknown''),
                              (''color'', ''unknown''),
                              (''fabric'', ''unknown''),
                              (''occasion'', ''unknown''),
                              (''error'', str_of e)];
                  state2 = append_agent_log t1 state1 ''vision'' ''Failed to analyze image''
                             ''error'' (Some (DetStr (str_of e)))
              in \<lparr> vo_visual_analysis = analysis,
                   vo_agent_logs = get_or (agent_logs state2) [] \<rparr>))"

section \<open>\<open>app/agents/trending.py\<close>\<close>

record TrendOutput =
  to_trend_summary :: string
  to_agent_logs :: "AgentLogEntry list"

definition fetch_trends :: "Env \<Rightarrow> nat \<Rightarrow> nat \<Rightarrow> AgentState \<Rightarrow> TrendOutput" where
  "fetch_trends env t0 t1 state0 =
     (let visual = get_or (visual_analysis state0) [];
          query = get_or (user_query state0) [];
          gender = dict_get visual ''gender_style'' ''unisex'';
          occ = dict_get visual ''occasion'' ''casual'';
          state1 = append_agent_log t0 state0 ''trends'' ''Collecting trend context'' ''info''
                     (Some (DetDict [(''gender_style'', JStr gender),
                                     (''occasion'', JStr occ),
                                     (''mode'', JStr (get_or (analysis_mode state0) ''deep''))]))
      in case FetchRelevantTrends env gender occ query of
           Inr trends \<Rightarrow>
             (let state2 = append_agent_log t1 state1 ''trends'' ''Produced trend summary''
                             ''info'' (Some (DetStr (take 300 trends)))
              in \<lparr> to_trend_summary = trends,
                   to_agent_logs = get_or (agent_logs state2) [] \<rparr>)
         | Inl e \<Rightarrow>
             (let trends = ''Current fashion trends for '' @ gender @ '' '' @ occ @
                           '' wear focus on '' @
                           ''quality fabrics, versatile pieces, and sustainable choices. '' @
                           ''Neutral colors and classic silhouettes remain popular.'';
                  state2 = append_agent_log t1 state1 ''trends''
                             ''Failed to fetch trends; using fallback''
                             ''warning'' (Some (DetStr (str_of e)))
              in \<lparr> to_trend_summary = trends,
                   to_agent_logs = get_or (agent_logs state2) [] \<rparr>))"

section \<open>\<open>app/agents/analysis.py\<close>\<close>

record AdviceOutput =
  ao_final_report :: string
  ao_agent_logs :: "AgentLogEntry list"

definition synthesize_advice :: "Env \<Rightarrow> nat \<Rightarrow> nat \<Rightarrow> AgentState \<Rightarrow> AdviceOutput" where
  "synthesize_advice env t0 t1 state0 =
     (let state1 = append_agent_log t0 state0 ''advisor'' ''Generating styling advice'' ''info''
                     (Some (DetDict [(''mode'', JStr (get_or (analysis_mode state0) ''deep''))]));
          visual = get_or (visual_analysis state1) [];
          trends = get_or (trend_summary state1) [];
          query = get_or (user_query state1) []
      in case SynthesizeStylingAdvice env query
                (dict_get visual ''gender_style'' ''unisex'')
                (dict_get visual ''cut'' ''unknown'')
                (dict_get visual ''color'' ''unknown'')
                (dict_get visual ''fabric'' ''unknown'')
                (dict_get visual ''occasion'' ''casual'')
                trends of
           Inr advice \<Rightarrow>
             (let state2 = append_agent_log t1 state1 ''advisor'' ''Completed styling advice''
                             ''info'' (Some (DetStr (take 300 advice)))
              in \<lparr> ao_final_report = advice,
                   ao_agent_logs = get_or (agent_logs state2) [] \<rparr>)
         | Inl e \<Rightarrow>
             (let advice = ''Unable to generate personalized advice at this time. '' @
                           ''Please try again later or consult with a fashion professional.'';
                  state2 = append_agent_log t1 state1 ''advisor''
                             ''Failed to generate styling advice''
                             ''error'' (Some (DetStr (str_of e)))
              in \<lparr> ao_final_report = advice,
                   ao_agent_logs = get_or (agent_logs state2) [] \<rparr>))"

section \<open>\<open>app/agents/multi_model.py\<close>: the image regeneration stage\<close>

text \<open>Python's truth value of an optional string or \<open>bytes\<close>, and \<open>x or default\<close>.\<close>

definition truthy :: "'a list option \<Rightarrow> bool" where
  "truthy v = (case v of None \<Rightarrow> False | Some xs \<Rightarrow> xs \<noteq> [])"

definition py_or :: "'a list option \<Rightarrow> 'a list \<Rightarrow> 'a list" where
  "py_or v dflt = (case v of None \<Rightarrow> dflt | Some xs \<Rightarrow> if xs = [] then dflt else xs)"

definition download_file_bytes :: "Env \<Rightarrow> string \<Rightarrow> bytes option" where
  "download_file_bytes env uri0 =
     (case get_file env uri0 of
        Inl e \<Rightarrow> None
      | Inr uri \<Rightarrow>
          if \<not> truthy uri then None
          else (case urlopen_read env (py_or uri []) of
                  Inl e \<Rightarrow> None
                | Inr content_bytes \<Rightarrow> Some content_bytes))"

text \<open>
  The body of the inner loop of \<open>_extract_image_bytes\<close> for one part: \<open>Some\<close> when
  the body reaches one of its \<open>return\<close> statements, \<open>None\<close> when it falls through
  to the next part.
\<close>

definition extract_from_part :: "Env \<Rightarrow> Part \<Rightarrow> (bytes \<times> string option) option" where
  "extract_from_part env part =
     (let file_section =
            (case file_data part of
               None \<Rightarrow> None
             | Some fd \<Rightarrow>
                 if \<not> truthy (file_uri fd) then None
                 else (let downloaded = download_file_bytes env (py_or (file_uri fd) [])
                       in if truthy downloaded
                          then Some (py_or downloaded [], file_mime_type fd)
                          else None))
      in case inline_data part of
           None \<Rightarrow> file_section
         | Some inl \<Rightarrow>
             (case data inl of
                None \<Rightarrow> file_section
              | Some (DataBytes raw) \<Rightarrow>
                  if raw = [] then file_section else Some (raw, mime_type inl)
              | Some (DataStr txt) \<Rightarrow>
                  if txt = [] then file_section
                  else (case b64decode env txt of
                          Inr decoded \<Rightarrow> Some (decoded, mime_type inl)
                        | Inl e \<Rightarrow> file_section)
              | Some DataOther \<Rightarrow> file_section))"

fun extract_from_parts :: "Env \<Rightarrow> Part list \<Rightarrow> (bytes \<times> string option) option" where
  "extract_from_parts env [] = None"
| "extract_from_parts env (part # rest) =
     (case extract_from_part env part of
        Some found \<Rightarrow> Some found
      | None \<Rightarrow> extract_from_parts env rest)"

fun extract_from_iterables ::
  "Env \<Rightarrow> Part list option list \<Rightarrow> (bytes \<times> string option) option" where
  "extract_from_iterables env [] = None"
| "extract_from_iterables env (ps # rest) =
     (case extract_from_parts env (get_or ps []) of
        Some found \<Rightarrow> Some found
      | None \<Rightarrow> extract_from_iterables env rest)"

text \<open>The first loop: the \<open>parts\<close> of every candidate that has a content.\<close>

fun candidate_parts :: "Candidate list \<Rightarrow> Part list option list" where
  "candidate_parts [] = []"
| "candidate_parts (c # cs) =
     (case content c of
        None \<Rightarrow> candidate_parts cs
      | Some ct \<Rightarrow> parts ct # candidate_parts cs)"

text \<open>
  \<open>_extract_image_bytes\<close>. The exception of \<open>hasattr(response, "parts")\<close> leaves the
  function, after the loop over the candidates and before any part is looked at.
\<close>

definition extract_image_bytes ::
  "Env \<Rightarrow> Response option \<Rightarrow> (bytes option \<times> string option) result" where
  "extract_image_bytes env response =
     (case response of
        None \<Rightarrow> Inr (None, None)
      | Some r \<Rightarrow>
          (let from_candidates = candidate_parts (get_or (candidates r) [])
           in case response_parts r of
                Inl e \<Rightarrow> Inl e
              | Inr own_parts \<Rightarrow>
                  (let parts_iterables =
                         from_candidates @ (if truthy own_parts then [own_parts] else [])
                   in case extract_from_iterables env parts_iterables of
                        Some (found, mime) \<Rightarrow> Inr (Some found, mime)
                      | None \<Rightarrow> Inr (None, None))))"

text \<open>The first element of \<open>messages\<close>.\<close>

definition keep_identity_instruction :: string where
  "keep_identity_instruction =
     ''Generate a new image that keeps the exact same person, face, facial '' @
     ''expression, pose, body type, and background from the reference image. '' @
     ''Only change the clothing and outfit to match the professional styling '' @
     ''guidance provided. Do not alter the person's appearance, hair, or any '' @
     ''other physical features.''"

definition generate_image_from_gemini ::
  "Env \<Rightarrow> string \<Rightarrow> bytes option \<Rightarrow> string option \<Rightarrow> string option \<times> string option" where
  "generate_image_from_gemini env prompt base_image stylist_advice =
     (case GenerativeModel env IMAGE_MODEL of
        Inl e \<Rightarrow> (None, None)
      | Inr _ \<Rightarrow>
          (let messages0 = [MsgText keep_identity_instruction];
               messages1 =
                 (if truthy stylist_advice
                  then messages0 @ [MsgText (''Styling guidance to apply:'' @ [CHR 0x0A] @
                                             py_or stylist_advice [])]
                  else messages0);
               messages2 = messages1 @ [MsgText prompt];
               messages3 =
                 (if truthy base_image
                  then (case Image_open env (py_or base_image []) of
                          Inr reference_image \<Rightarrow> messages2 @ [MsgImage reference_image]
                        | Inl e \<Rightarrow> messages2)
                  else messages2)
           in case generate_content env IMAGE_MODEL messages3 of
                Inl e \<Rightarrow> (None, None)
              | Inr response \<Rightarrow>
                  (case extract_image_bytes env response of
                     Inl e \<Rightarrow> (None, None)
                   | Inr (image_bytes, mime) \<Rightarrow>
                       if \<not> truthy image_bytes then (None, None)
                       else (let encoded = b64encode (py_or image_bytes []);
                                 mime2 = py_or mime ''image/png''
                             in (Some (''data:'' @ mime2 @ '';base64,'' @ encoded),
                                 Some mime2)))))"

text \<open>
  The f-string of \<open>generate_outfit\<close> after \<open>strip()\<close>: the template starts and ends
  with fixed text, so stripping removes exactly the line break before its first line
  and the indentation after its last.
\<close>

definition generation_prompt_text :: "string \<Rightarrow> string py_dict \<Rightarrow> string \<Rightarrow> string" where
  "generation_prompt_text advice visual query =
     ''Professional fashion editorial photography:'' @ [CHR 0x0A] @
     ''- Outfit: '' @ (if advice \<noteq> [] then takeWhile (\<lambda>c. c \<noteq> CHR ''.'') advice
                       else ''Professional outfit'') @ [CHR 0x0A] @
     ''- Style: '' @ dict_get visual ''cut'' ''modern tailored fit'' @ [CHR 0x0A] @
     ''- Colors: '' @ dict_get visual ''color'' ''neutral professional tones'' @ [CHR 0x0A] @
     ''- Fabric: '' @ dict_get visual ''fabric'' ''high-quality materials'' @ [CHR 0x0A] @
     ''- Occasion: '' @ dict_get visual ''occasion'' ''professional setting'' @ [CHR 0x0A] @
     ''- Personal request: '' @
        (if query \<noteq> [] then query else ''Tailor to the user's stated preference'') @
        [CHR 0x0A] @
     ''- IMPORTANT: Keep the exact same person, face, facial expression, pose, and '' @
     ''background from the reference image. Only change the clothing/outfit to match '' @
     ''the new style guidance.'' @ [CHR 0x0A] @
     ''- Setting: Same background as reference image, professional lighting'' @ [CHR 0x0A] @
     ''- Shot: Full body, same pose and composition as reference image, high detail, '' @
     ''8K quality'' @ [CHR 0x0A] @
     ''- Mood: Sophisticated, professional, current trends'' @ [CHR 0x0A] @
     ''- Reference: Use the provided outfit photo as base - preserve the person's '' @
     ''identity, face, hair, body type, pose, and background completely unchanged. '' @
     ''Only modify the wardrobe items.''"

record OutfitOutput =
  oo_generated_image_url :: "string option"
  oo_generation_prompt :: string
  oo_image_generation_error :: "string option"
  oo_agent_logs :: "AgentLogEntry list"

text \<open>
  \<open>generate_outfit\<close> with the function it calls as a parameter, so that the
  \<open>except\<close> branch is defined for a callee that raises. (The module's own
  \<open>_generate_image_from_gemini\<close> catches every exception itself.)
\<close>

definition generate_outfit_with ::
  "(string \<Rightarrow> bytes option \<Rightarrow> string option \<Rightarrow> (string option \<times> string option) result)
     \<Rightarrow> nat \<Rightarrow> nat \<Rightarrow> AgentState \<Rightarrow> OutfitOutput" where
  "generate_outfit_with callee t0 t1 state0 =
     (let state1 = state0\<lparr> image_generation_error := None \<rparr>;
          state2 = append_agent_log t0 state1 ''generator'' ''Preparing outfit visualization''
                     ''info''
                     (Some (DetDict [(''mode'', JStr (get_or (analysis_mode state1) ''deep'')),
                                     (''has_advice'', JBool (truthy (final_report state1)))]));
          advice = get_or (final_report state2) [];
          visual = get_or (visual_analysis state2) [];
          query = get_or (user_query state2) [];
          generation_prompt = generation_prompt_text advice visual query
      in case callee generation_prompt (original_image state2) (Some advice) of
           Inr (generated_url, mime) \<Rightarrow>
             if truthy generated_url
             then (let state3 = append_agent_log t1 state2 ''generator''
                                  ''Generated upgraded outfit image'' ''info''
                                  (Some (DetDict [(''mime_type'', JStr (py_or mime ''unknown''))]))
                   in \<lparr> oo_generated_image_url = generated_url,
                        oo_generation_prompt = generation_prompt,
                        oo_image_generation_error = image_generation_error state3,
                        oo_agent_logs = get_or (agent_logs state3) [] \<rparr>)
             else (let state3 = state2\<lparr> image_generation_error :=
                                  Some ''Gemini image generation returned no content'' \<rparr>;
                       state4 = append_agent_log t1 state3 ''generator''
                                  ''Gemini image generation returned no content'' ''warning''
                                  None
                   in \<lparr> oo_generated_image_url = None,
                        oo_generation_prompt = generation_prompt,
                        oo_image_generation_error = image_generation_error state4,
                        oo_agent_logs = get_or (agent_logs state4) [] \<rparr>)
         | Inl e \<Rightarrow>
             (let state3 = state2\<lparr> image_generation_error := Some (str_of e) \<rparr>;
                  state4 = append_agent_log t1 state3 ''generator''
                             ''Failed to generate outfit visualization'' ''error''
                             (Some (DetStr (str_of e)))
              in \<lparr> oo_generated_image_url = None,
                   oo_generation_prompt = generation_prompt,
                   oo_image_generation_error = image_generation_error state4,
                   oo_agent_logs = get_or (agent_logs state4) [] \<rparr>))"

definition generate_outfit :: "Env \<Rightarrow> nat \<Rightarrow> nat \<Rightarrow> AgentState \<Rightarrow> OutfitOutput" where
  "generate_outfit env =
     generate_outfit_with (\<lambda>prompt base_image stylist_advice.
       Inr (generate_image_from_gemini env prompt base_image stylist_advice))"

section \<open>\<open>app/agents/supervisor.py\<close>: the graph\<close>

text \<open>
  \<open>build_graph\<close> wires the four nodes in a line. The graph runs a node on the
  current state and overwrites each key of the state with the value the node returns
  for it. \<open>clock k\<close> is the reading of the system clock at the \<open>k\<close>-th call of
  \<open>append_agent_log\<close> of the run; each node makes two such calls.
\<close>

definition node_analyze_image :: "Env \<Rightarrow> (nat \<Rightarrow> nat) \<Rightarrow> AgentState \<Rightarrow> AgentState" where
  "node_analyze_image env clock st =
     (let out = analyze_image env (clock 0) (clock 1) st
      in st\<lparr> visual_analysis := Some (vo_visual_analysis out),
              agent_logs := Some (vo_agent_logs out) \<rparr>)"

definition node_fetch_trends :: "Env \<Rightarrow> (nat \<Rightarrow> nat) \<Rightarrow> AgentState \<Rightarrow> AgentState" where
  "node_fetch_trends env clock st =
     (let out = fetch_trends env (clock 2) (clock 3) st
      in st\<lparr> trend_summary := Some (to_trend_summary out),
              agent_logs := Some (to_agent_logs out) \<rparr>)"

definition node_synthesize_advice :: "Env \<Rightarrow> (nat \<Rightarrow> nat) \<Rightarrow> AgentState \<Rightarrow> AgentState" where
  "node_synthesize_advice env clock st =
     (let out = synthesize_advice env (clock 4) (clock 5) st
      in st\<lparr> final_report := Some (ao_final_report out),
              agent_logs := Some (ao_agent_logs out) \<rparr>)"

definition node_generate_outfit :: "Env \<Rightarrow> (nat \<Rightarrow> nat) \<Rightarrow> AgentState \<Rightarrow> AgentState" where
  "node_generate_outfit env clock st =
     (let out = generate_outfit env (clock 6) (clock 7) st
      in st\<lparr> generated_image_url := oo_generated_image_url out,
              generation_prompt := Some (oo_generation_prompt out),
              image_generation_error := oo_image_generation_error out,
              agent_logs := Some (oo_agent_logs out) \<rparr>)"

definition agent_graph_invoke :: "Env \<Rightarrow> (nat \<Rightarrow> nat) \<Rightarrow> AgentState \<Rightarrow> AgentState" where
  "agent_graph_invoke env clock st =
     node_generate_outfit env clock
       (node_synthesize_advice env clock
         (node_fetch_trends env clock
           (node_analyze_image env clock st)))"

text \<open>
  The messages of the entries that the stages append at a terminal outcome (success,
  fallback or failure), as opposed to the entry each stage appends when it starts.
\<close>

definition completion_messages :: "string list" where
  "completion_messages =
     [''Completed image analysis'', ''Failed to analyze image'',
      ''Produced trend summary'', ''Failed to fetch trends; using fallback'',
      ''Completed styling advice'', ''Failed to generate styling advice'',
      ''Generated upgraded outfit image'', ''Gemini image generation returned no content'',
      ''Failed to generate outfit visualization'']"

definition is_completion :: "string \<Rightarrow> AgentLogEntry \<Rightarrow> bool" where
  "is_completion ag e \<longleftrightarrow> agent e = ag \<and> message e \<in> set completion_messages"

text \<open>The log of a state, empty when the key is missing.\<close>

definition logs_of :: "AgentState \<Rightarrow> AgentLogEntry list" where
  "logs_of s = get_or (agent_logs s) []"

text \<open>
  What one stage adds to the log: two entries of its own, the first written when it
  starts and the second at its terminal outcome, stamped with the two clock readings.
\<close>

definition stage_entries :: "string \<Rightarrow> nat \<Rightarrow> nat \<Rightarrow> AgentLogEntry list \<Rightarrow> bool" where
  "stage_entries ag ta tb new \<longleftrightarrow>
     (case new of
        [e0, e1] \<Rightarrow>
          agent e0 = ag \<and> agent e1 = ag
          \<and> timestamp e0 = ta div 1000000 \<and> timestamp e1 = tb div 1000000
          \<and> message e0 \<notin> set completion_messages
          \<and> message e1 \<in> set completion_messages
      | _ \<Rightarrow> False)"

section \<open>\<open>app/agents/config.py\<close> and \<open>app/routers/analyze.py\<close>: the route\<close>

definition LM_MAP :: "string py_dict" where
  "LM_MAP = [(''quick'', ''gemini/gemini-2.5-flash''), (''deep'', ''gemini/gemini-2.5-pro'')]"

text \<open>
  \<open>configure_lm\<close>: the module variable \<open>_current_mode\<close> is passed in and returned.
\<close>

definition configure_lm :: "Env \<Rightarrow> string option \<Rightarrow> string \<Rightarrow> string result \<times> string option" where
  "configure_lm env current_mode mode =
     (let normalized0 = lower mode;
          normalized = (if map_of LM_MAP normalized0 = None then ''deep'' else normalized0);
          model_name = dict_get LM_MAP normalized []
      in if current_mode = Some normalized then (Inr model_name, current_mode)
         else (case dspy_configure env model_name of
                 Inl e \<Rightarrow> (Inl e, current_mode)
               | Inr _ \<Rightarrow> (Inr model_name, Some normalized)))"

text \<open>
  An uploaded file: its name and what \<open>file.read()\<close> returns or raises. The request
  carries the uploaded files and the form fields by name.
\<close>

record FileStorage =
  filename :: string
  read_result :: "bytes result"

record Request =
  files :: "FileStorage py_dict"
  form :: "string py_dict"

datatype validation =
    Invalid "string py_dict" nat
  | Valid FileStorage string

text \<open>
  Iterating the set \<open>ALLOWED_EXTENSIONS\<close> has no specified order in Python; the error
  text lists the extensions in the order the environment gives.
\<close>

definition validate_request :: "Env \<Rightarrow> Request \<Rightarrow> validation result" where
  "validate_request env req =
     (case map_of (files req) ''image'' of
        None \<Rightarrow> Inr (Invalid [(''error'', ''No image file provided'')] 400)
      | Some file \<Rightarrow>
          if filename file = [] then Inr (Invalid [(''error'', ''No file selected'')] 400)
          else (case allowed_file (filename file) of
                  Inl e \<Rightarrow> Inl e
                | Inr ok \<Rightarrow>
                    if \<not> ok
                    then Inr (Invalid [(''error'', ''Invalid file type. Allowed: '' @
                            join '', '' (extension_order env))] 400)
                    else Inr (Valid file (dict_get (form req) ''query'' DEFAULT_QUERY))))"

record ResponseData =
  rd_visual_analysis :: "string py_dict option"
  rd_trend_summary :: "string option"
  rd_final_report :: "string option"
  rd_generated_image_url :: "string option"
  rd_agent_logs :: "AgentLogEntry list"
  rd_analysis_mode :: string
  rd_generation_prompt :: "string option"
  rd_image_generation_error :: "string option"

datatype response_body =
    ErrorBody "string py_dict"
  | ResultBody ResponseData
  | Unhandled py_exception

text \<open>
  What one request does: the response, the state the graph was invoked with (\<open>None\<close>
  when the graph was not invoked), and the new value of \<open>_current_mode\<close>. An exception
  that escapes the view function is answered by the framework with status 500.
\<close>

record RouteOutcome =
  status :: nat
  body :: response_body
  invoked_with :: "AgentState option"
  current_mode_after :: "string option"

definition analyze_outfit ::
  "Env \<Rightarrow> (nat \<Rightarrow> nat) \<Rightarrow> string option \<Rightarrow> Request \<Rightarrow> RouteOutcome" where
  "analyze_outfit env clock current_mode req =
     (case validate_request env req of
        Inl e \<Rightarrow> \<lparr> status = 500, body = Unhandled e, invoked_with = None,
                   current_mode_after = current_mode \<rparr>
      | Inr (Invalid err code) \<Rightarrow>
          \<lparr> status = code, body = ErrorBody err, invoked_with = None,
            current_mode_after = current_mode \<rparr>
      | Inr (Valid file query) \<Rightarrow>
          (case read_result file of
             Inl e \<Rightarrow>
               \<lparr> status = 500,
                 body = ErrorBody [(''error'', ''Internal server error''),
                                   (''details'', str_of e)],
                 invoked_with = None, current_mode_after = current_mode \<rparr>
           | Inr image_bytes \<Rightarrow>
               if length image_bytes > MAX_FILE_SIZE
               then \<lparr> status = 400,
                      body = ErrorBody [(''error'', ''File size exceeds 10MB limit'')],
                      invoked_with = None, current_mode_after = current_mode \<rparr>
               else
                 (let mode0 = lower (dict_get (form req) ''mode'' ''deep'');
                      mode = (if mode0 \<in> {''quick'', ''deep''} then mode0 else ''deep'')
                  in case configure_lm env current_mode mode of
                       (Inl e, cm) \<Rightarrow>
                         \<lparr> status = 500,
                           body = ErrorBody [(''error'', ''Internal server error''),
                                             (''details'', str_of e)],
                           invoked_with = None, current_mode_after = cm \<rparr>
                     | (Inr _, cm) \<Rightarrow>
                         (let initial_state =
                                \<lparr> original_image = Some image_bytes,
                                  user_query = Some query,
                                  visual_analysis = Some [],
                                  trend_summary = Some [],
                                  final_report = Some [],
                                  generated_image_url = Some [],
                                  generation_prompt = Some [],
                                  agent_logs = Some [],
                                  analysis_mode = Some mode,
                                  image_generation_error = None \<rparr>;
                              res = agent_graph_invoke env clock initial_state
                          in \<lparr> status = 200,
                               body = ResultBody
                                 \<lparr> rd_visual_analysis = visual_analysis res,
                                   rd_trend_summary = trend_summary res,
                                   rd_final_report = final_report res,
                                   rd_generated_image_url = generated_image_url res,
                                   rd_agent_logs = get_or (agent_logs res) [],
                                   rd_analysis_mode = mode,
                                   rd_generation_prompt = generation_prompt res,
                                   rd_image_generation_error = image_generation_error res \<rparr>,
                               invoked_with = Some initial_state,
                               current_mode_after = cm \<rparr>))))"

section \<open>The wording of the specification for the image-bytes extractor\<close>

text \<open>
  The three ways a part can carry an image, each tried on its own, and the first
  success over a list of attempts. An attempt succeeds when it yields bytes, that is a
  non-empty \<open>bytes\<close> value.
\<close>

definition try_inline_binary :: "Part \<Rightarrow> (bytes \<times> string option) option" where
  "try_inline_binary part =
     (case inline_data part of
        None \<Rightarrow> None
      | Some inl \<Rightarrow>
          (case data inl of
             Some (DataBytes raw) \<Rightarrow> if raw \<noteq> [] then Some (raw, mime_type inl) else None
           | _ \<Rightarrow> None))"

definition try_inline_base64 :: "Env \<Rightarrow> Part \<Rightarrow> (bytes \<times> string option) option" where
  "try_inline_base64 env part =
     (case inline_data part of
        None \<Rightarrow> None
      | Some inl \<Rightarrow>
          (case data inl of
             Some (DataStr txt) \<Rightarrow>
               if txt \<noteq> []
               then (case b64decode env txt of
                       Inr decoded \<Rightarrow>
                         if decoded \<noteq> [] then Some (decoded, mime_type inl) else None
                     | Inl e \<Rightarrow> None)
               else None
           | _ \<Rightarrow> None))"

text \<open>
  The follow-up fetch of a file reference: look the file up, then read what its address
  serves; any failure on the way is no bytes.
\<close>

definition spec_fetch :: "Env \<Rightarrow> string \<Rightarrow> bytes option" where
  "spec_fetch env reference =
     (case get_file env reference of
        Inr (Some address) \<Rightarrow>
          if address = [] then None
          else (case urlopen_read env address of
                  Inr fetched \<Rightarrow> Some fetched
                | Inl e \<Rightarrow> None)
      | _ \<Rightarrow> None)"

definition try_file_reference :: "Env \<Rightarrow> Part \<Rightarrow> (bytes \<times> string option) option" where
  "try_file_reference env part =
     (case file_data part of
        None \<Rightarrow> None
      | Some fd \<Rightarrow>
          (case file_uri fd of
             None \<Rightarrow> None
           | Some uri \<Rightarrow>
               if uri = [] then None
               else (case spec_fetch env uri of
                       None \<Rightarrow> None
                     | Some fetched \<Rightarrow>
                         if fetched = [] then None else Some (fetched, file_mime_type fd))))"

fun first_success :: "'a option list \<Rightarrow> 'a option" where
  "first_success [] = None"
| "first_success (None # rest) = first_success rest"
| "first_success (Some x # rest) = Some x"

definition spec_extract_part :: "Env \<Rightarrow> Part \<Rightarrow> (bytes \<times> string option) option" where
  "spec_extract_part env part =
     first_success [try_inline_binary part, try_inline_base64 env part,
                    try_file_reference env part]"

text \<open>
  All parts of a response in the order they are visited: those of each candidate's
  content, then the response's own.
\<close>

definition all_parts :: "Response \<Rightarrow> Part list" where
  "all_parts r =
     concat (map (\<lambda>c. case content c of None \<Rightarrow> [] | Some ct \<Rightarrow> get_or (parts ct) [])
                 (get_or (candidates r) []))
     @ (case response_parts r of Inr own_parts \<Rightarrow> get_or own_parts [] | Inl e \<Rightarrow> [])"

definition spec_extract :: "Env \<Rightarrow> Response \<Rightarrow> (bytes \<times> string option) option" where
  "spec_extract env r = first_success (map (spec_extract_part env) (all_parts r))"

text \<open>
  A part whose inline text decodes, without an error, to no bytes at all.
\<close>

definition decodes_empty :: "Env \<Rightarrow> Part \<Rightarrow> bool" where
  "decodes_empty env part =
     (case inline_data part of
        None \<Rightarrow> False
      | Some inl \<Rightarrow>
          (case data inl of
             Some (DataStr txt) \<Rightarrow> txt \<noteq> [] \<and> b64decode env txt = Inr []
           | _ \<Rightarrow> False))"

section \<open>Example inputs\<close>

definition example_state :: AgentState where
  "example_state =
     \<lparr> original_image = Some [0x89, 0x50, 0x4E, 0x47],
       user_query = Some ''What should I wear for a wedding?'',
       visual_analysis = Some [],
       trend_summary = Some [],
       final_report = Some [],
       generated_image_url = Some [],
       generation_prompt = Some [],
       agent_logs = Some [],
       analysis_mode = Some ''quick'',
       image_generation_error = None \<rparr>"

definition inline_part :: Part where
  "inline_part =
     \<lparr> inline_data = Some \<lparr> data = Some (DataBytes [0x4D, 0x61, 0x6E]),
                             mime_type = Some ''image/jpeg'' \<rparr>,
       file_data = None \<rparr>"

definition remote_part :: Part where
  "remote_part =
     \<lparr> inline_data = Some \<lparr> data = Some (DataStr ''not base64''), mime_type = None \<rparr>,
       file_data = Some \<lparr> file_uri = Some ''files/abc'', file_mime_type = None \<rparr> \<rparr>"

definition empty_part :: Part where
  "empty_part = \<lparr> inline_data = None, file_data = None \<rparr>"

definition example_response :: Response where
  "example_response =
     \<lparr> candidates = Some [\<lparr> content = Some \<lparr> parts = Some [empty_part, inline_part] \<rparr> \<rparr>],
       response_parts = Inr (Some [empty_part, inline_part]) \<rparr>"

text \<open>
  A part whose inline text has no character of the base64 alphabet:
  \<open>base64.b64decode\<close> discards such characters and returns the empty \<open>bytes\<close>.
\<close>

definition undecodable_part :: Part where
  "undecodable_part =
     \<lparr> inline_data = Some \<lparr> data = Some (DataStr ''!!!!''),
                             mime_type = Some ''image/webp'' \<rparr>,
       file_data = None \<rparr>"

definition undecodable_response :: Response where
  "undecodable_response =
     \<lparr> candidates = Some [\<lparr> content = Some \<lparr> parts = Some [undecodable_part] \<rparr> \<rparr>],
       response_parts = Inr (Some [undecodable_part]) \<rparr>"

definition shadowed_response :: Response where
  "shadowed_response =
     \<lparr> candidates =
         Some [\<lparr> content = Some \<lparr> parts = Some [undecodable_part, inline_part] \<rparr> \<rparr>],
       response_parts = Inr (Some [undecodable_part, inline_part]) \<rparr>"

definition remote_response :: Response where
  "remote_response =
     \<lparr> candidates = Some [\<lparr> content = Some \<lparr> parts = Some [empty_part, remote_part] \<rparr> \<rparr>],
       response_parts = Inr (Some [empty_part, remote_part]) \<rparr>"

text \<open>
  A response without candidates, as the service sends when it blocks the prompt; the
  \<open>parts\<close> property of the client library raises \<open>ValueError\<close> on it.
\<close>

definition blocked_response :: Response where
  "blocked_response =
     \<lparr> candidates = Some [],
       response_parts = Inl (PyException ''response.parts requires a single candidate'') \<rparr>"

text \<open>Every service answers.\<close>

definition services_up :: Env where
  "services_up =
     \<lparr> GenerativeModel = (\<lambda>_. Inr ()),
       Image_open = (\<lambda>raw. Inr raw),
       describe_content = (\<lambda>_ _. Inr ''A navy two-piece suit with a white shirt.''),
       AnalyzeOutfitImage = (\<lambda>_ _. Inr \<lparr> gender_style = ''masculine'', cut = ''slim fit'',
           color = ''navy'', fabric = ''wool'', occasion = ''formal'' \<rparr>),
       FetchRelevantTrends = (\<lambda>_ _ _. Inr ''Tailoring is back.''),
       SynthesizeStylingAdvice = (\<lambda>_ _ _ _ _ _ _. Inr ''Add a pocket square. Keep the shoes.''),
       generate_content = (\<lambda>_ _. Inr (Some example_response)),
       b64decode = (\<lambda>txt. if txt = ''!!!!'' then Inr []
                          else Inl (PyException ''Incorrect padding'')),
       get_file = (\<lambda>_. Inr (Some ''https://files.example/abc'')),
       urlopen_read = (\<lambda>_. Inr [0x4D, 0x61]),
       dspy_configure = (\<lambda>_. Inr ()),
       extension_order = [''webp'', ''png'', ''jpeg'', ''gif'', ''jpg''] \<rparr>"

text \<open>Every service raises.\<close>

definition services_down :: Env where
  "services_down =
     \<lparr> GenerativeModel = (\<lambda>_. Inl (PyException ''service unavailable'')),
       Image_open = (\<lambda>_. Inl (PyException ''service unavailable'')),
       describe_content = (\<lambda>_ _. Inl (PyException ''service unavailable'')),
       AnalyzeOutfitImage = (\<lambda>_ _. Inl (PyException ''service unavailable'')),
       FetchRelevantTrends = (\<lambda>_ _ _. Inl (PyException ''service unavailable'')),
       SynthesizeStylingAdvice = (\<lambda>_ _ _ _ _ _ _. Inl (PyException ''service unavailable'')),
       generate_content = (\<lambda>_ _. Inl (PyException ''service unavailable'')),
       b64decode = (\<lambda>_. Inl (PyException ''service unavailable'')),
       get_file = (\<lambda>_. Inl (PyException ''service unavailable'')),
       urlopen_read = (\<lambda>_. Inl (PyException ''service unavailable'')),
       dspy_configure = (\<lambda>_. Inl (PyException ''service unavailable'')),
       extension_order = [''png'', ''jpg'', ''jpeg'', ''gif'', ''webp''] \<rparr>"

text \<open>A clock that advances by 0.4 seconds between two readings.\<close>

definition example_clock :: "nat \<Rightarrow> nat" where
  "example_clock k = 1700000000000000 + 400000 * k"

text \<open>
  The same clock, set back by five seconds (a time synchronisation step) between its
  third and its fourth reading.
\<close>

definition stepping_back_clock :: "nat \<Rightarrow> nat" where
  "stepping_back_clock k =
     (if k < 3 then 1700000005000000 + 400000 * k else 1700000000000000 + 400000 * k)"

section \<open>Properties of the log recorder\<close>

lemma details_text_dict_le: "length (details_text (DetDict kv)) \<le> 800"
  by (simp add: details_text_def)

lemma details_text_list_le: "length (details_text (DetList xs)) \<le> 800"
  by (simp add: details_text_def)

lemma append_agent_log_logs:
  "agent_logs (append_agent_log now st ag msg lvl det) =
     Some (get_or (agent_logs st) [] @
       [\<lparr> agent = ag, message = msg, level = lvl, timestamp = now div 1000000,
          details = map_option details_text det \<rparr>])"
  by (simp add: append_agent_log_def Let_def)

lemma append_agent_log_keeps:
  "original_image (append_agent_log now st ag msg lvl det) = original_image st"
  "user_query (append_agent_log now st ag msg lvl det) = user_query st"
  "visual_analysis (append_agent_log now st ag msg lvl det) = visual_analysis st"
  "trend_summary (append_agent_log now st ag msg lvl det) = trend_summary st"
  "final_report (append_agent_log now st ag msg lvl det) = final_report st"
  "analysis_mode (append_agent_log now st ag msg lvl det) = analysis_mode st"
  "image_generation_error (append_agent_log now st ag msg lvl det) = image_generation_error st"
  by (simp_all add: append_agent_log_def Let_def)

lemma get_or_Some [simp]: "get_or (Some x) d = x"
  by (simp add: get_or_def)

lemma details_text_str: "details_text (DetStr s) = s"
  by (simp add: details_text_def)

lemma json_dumps_dict_example:
  "json_dumps_dict [(''mode'', JStr ''quick''), (''has_advice'', JBool False)] =
     [CHR ''{'', CHR 0x22] @ ''mode'' @ [CHR 0x22] @ '': '' @ [CHR 0x22] @ ''quick'' @
     [CHR 0x22] @ '', '' @ [CHR 0x22] @ ''has_advice'' @ [CHR 0x22] @ '': false}''"
  by (simp add: json_dumps_dict_def json_string_def json_escape_char_def)

text \<open>
  C6 (fails on the code). A plain string passed as \<open>details\<close> is stored as it is:
  for a string of 801 characters the stored \<open>details\<close> field has 801 characters,
  more than the 800 the log entry format allows. Only the \<open>dict\<close> and \<open>list\<close> branch
  of \<open>append_agent_log\<close> truncates (\<open>details_text_dict_le\<close>,
  \<open>details_text_list_le\<close>).
\<close>

theorem C6_long_string_details_not_capped:
  "map (\<lambda>e. map_option length (details e))
     (logs_of (append_agent_log 0 example_state
        ''advisor'' ''Failed to generate styling advice'' ''error''
        (Some (DetStr (replicate 801 CHR ''x''))))) = [Some 801]
   \<and> \<not> (801 \<le> (800 :: nat))"
  by (simp add: append_agent_log_def logs_of_def example_state_def details_text_def)

section \<open>Properties of the extension check\<close>

lemma rfind_None: "rfind c s = None \<longleftrightarrow> c \<notin> set s"
  by (induction s) (auto split: option.splits)

lemma rfind_Some_drop:
  "rfind c s = Some i \<Longrightarrow>
     i < length s \<and> drop (Suc i) s = rev (takeWhile (\<lambda>x. x \<noteq> c) (rev s))"
proof (induction s arbitrary: i)
  case Nil
  then show ?case by simp
next
  case (Cons x xs)
  show ?case
  proof (cases "rfind c xs")
    case None
    then have notin: "c \<notin> set xs" by (simp add: rfind_None)
    from Cons.prems None have "x = c" "i = 0" by (auto split: if_splits)
    moreover from notin have "takeWhile (\<lambda>x. x \<noteq> c) (rev xs) = rev xs"
      by (auto intro: takeWhile_eq_all_conv[THEN iffD2])
    ultimately show ?thesis
      by (simp add: takeWhile_append)
  next
    case (Some j)
    with Cons.prems have i: "i = Suc j" by simp
    from Cons.IH[OF Some] have j: "j < length xs"
      and d: "drop (Suc j) xs = rev (takeWhile (\<lambda>x. x \<noteq> c) (rev xs))" by simp_all
    from Some have "c \<in> set xs" using rfind_None[of c xs] by auto
    then have "takeWhile (\<lambda>x. x \<noteq> c) (rev xs @ [x]) = takeWhile (\<lambda>x. x \<noteq> c) (rev xs)"
      by (simp add: takeWhile_append1)
    with i j d show ?thesis by simp
  qed
qed

lemma rsplit1_index1:
  assumes "CHR ''.'' \<in> set s"
  shows "list_index (rsplit1 CHR ''.'' s) (Suc 0) = Inr (after_last_dot s)"
proof -
  from assms obtain i where i: "rfind CHR ''.'' s = Some i"
    using rfind_None[of "CHR ''.''" s] by (cases "rfind CHR ''.'' s") auto
  from rfind_Some_drop[OF i] show ?thesis
    by (simp add: rsplit1_def i list_index_def after_last_dot_def)
qed

lemma allowed_file_spec: "allowed_file fname = Inr (spec_allowed fname)"
  by (cases "CHR ''.'' \<in> set fname")
     (simp_all add: allowed_file_def spec_allowed_def rsplit1_index1)

text \<open>
  C10. \<open>_allowed_file\<close> never raises, and it accepts a name exactly when the name has a
  dot and the text after its last dot, lowercased, is one of png, jpg, jpeg, gif, webp.
  So \<open>photo.PNG\<close> is accepted and every name without a dot is rejected.
\<close>

theorem C10_allowed_file_iff:
  "allowed_file fname = Inr (spec_allowed fname)
   \<and> allowed_file ''photo.PNG'' = Inr True
   \<and> (CHR ''.'' \<notin> set fname \<longrightarrow> allowed_file fname = Inr False)"
proof -
  have a: "allowed_file fname = Inr (spec_allowed fname)"
    by (rule allowed_file_spec)
  have "spec_allowed ''photo.PNG''"
    by code_simp
  moreover have "allowed_file ''photo.PNG'' = Inr (spec_allowed ''photo.PNG'')"
    by (rule allowed_file_spec)
  ultimately have b: "allowed_file ''photo.PNG'' = Inr True"
    by simp
  have c: "CHR ''.'' \<notin> set fname \<longrightarrow> allowed_file fname = Inr False"
    by (simp add: allowed_file_def)
  from a b c show ?thesis by blast
qed

theorem C10_allowed_file_witness:
  "allowed_file ''holiday.photo.JpEg'' = Inr True
   \<and> allowed_file ''archive.tar.gz'' = Inr False
   \<and> allowed_file ''png'' = Inr False"
proof -
  have "spec_allowed ''holiday.photo.JpEg''"
    by code_simp
  moreover have "\<not> spec_allowed ''archive.tar.gz''"
    by code_simp
  moreover have "CHR ''.'' \<notin> set ''png''" by simp
  ultimately show ?thesis
    using C10_allowed_file_iff[of "''holiday.photo.JpEg''"]
      C10_allowed_file_iff[of "''archive.tar.gz''"]
      C10_allowed_file_iff[of "''png''"]
    by metis
qed

section \<open>Properties of the vision stage\<close>

text \<open>
  C2. \<open>analyze_image\<close> is total: whatever the services do, it returns a
  \<open>visual_analysis\<close> with the five keys gender_style, cut, color, fabric and
  occasion. When the model call raises \<open>e\<close> (anywhere in the \<open>try\<close> block, the
  missing \<open>original_image\<close> key included), the five keys are all \<open>unknown\<close> and
  the key \<open>error\<close> holds \<open>str(e)\<close>.
\<close>

theorem C2_analyze_image_degrades:
  "(let va = vo_visual_analysis (analyze_image env t0 t1 st) in
      {''gender_style'', ''cut'', ''color'', ''fabric'', ''occasion''} \<subseteq> dom (map_of va)
      \<and> (\<forall>e. analyze_image_try env
                (dict_get VISION_MODELS (get_or (analysis_mode st) ''deep'') ''gemini-2.5-pro'')
                (original_image st) (get_or (user_query st) []) = Inl e
            \<longrightarrow> va = [(''gender_style'', ''unknown''), (''cut'', ''unknown''),
                      (''color'', ''unknown''), (''fabric'', ''unknown''),
                      (''occasion'', ''unknown''), (''error'', str_of e)]))"
  by (auto simp add: analyze_image_def Let_def append_agent_log_keeps VISION_MODELS_def
      dict_get_def split: sum.splits)

theorem C2_analyze_image_witness:
  "analyze_image_try services_down
      (dict_get VISION_MODELS (get_or (analysis_mode example_state) ''deep'') ''gemini-2.5-pro'')
      (original_image example_state) (get_or (user_query example_state) [])
     = Inl (PyException ''service unavailable'')
   \<and> vo_visual_analysis (analyze_image services_down 0 0 example_state) =
       [(''gender_style'', ''unknown''), (''cut'', ''unknown''), (''color'', ''unknown''),
        (''fabric'', ''unknown''), (''occasion'', ''unknown''),
        (''error'', ''service unavailable'')]"
proof -
  have h: "analyze_image_try services_down
      (dict_get VISION_MODELS (get_or (analysis_mode example_state) ''deep'') ''gemini-2.5-pro'')
      (original_image example_state) (get_or (user_query example_state) [])
     = Inl (PyException ''service unavailable'')"
    by (simp add: analyze_image_try_def services_down_def)
  from C2_analyze_image_degrades[of services_down 0 0 example_state] h show ?thesis
    by (simp add: Let_def)
qed

section \<open>Properties of the trend stage\<close>

text \<open>
  C3. When the call of the trend generator raises, \<open>trend_summary\<close> is the fixed
  template filled with the \<open>gender_style\<close> and \<open>occasion\<close> read from
  \<open>visual_analysis\<close> (\<open>unisex\<close> and \<open>casual\<close> when the key is absent): it is not
  empty, both values occur in it literally, it depends on nothing else, and the entry
  logged for the fallback has level \<open>warning\<close>, not \<open>error\<close>.
\<close>

theorem C3_fetch_trends_fallback:
  assumes visual: "visual = get_or (visual_analysis st) []"
    and gender: "gender = (case map_of visual ''gender_style'' of Some v \<Rightarrow> v | None \<Rightarrow> ''unisex'')"
    and occ: "occ = (case map_of visual ''occasion'' of Some v \<Rightarrow> v | None \<Rightarrow> ''casual'')"
    and fails: "FetchRelevantTrends env gender occ (get_or (user_query st) []) = Inl e"
  shows "to_trend_summary (fetch_trends env t0 t1 st) =
           ''Current fashion trends for '' @ gender @ '' '' @ occ @
           '' wear focus on quality fabrics, versatile pieces, and sustainable choices. Neutral colors and classic silhouettes remain popular.''
         \<and> to_trend_summary (fetch_trends env t0 t1 st) \<noteq> []
         \<and> sublist gender (to_trend_summary (fetch_trends env t0 t1 st))
         \<and> sublist occ (to_trend_summary (fetch_trends env t0 t1 st))
         \<and> length (to_agent_logs (fetch_trends env t0 t1 st)) =
             length (get_or (agent_logs st) []) + 2
         \<and> last (to_agent_logs (fetch_trends env t0 t1 st)) =
             \<lparr> agent = ''trends'', message = ''Failed to fetch trends; using fallback'',
               level = ''warning'', timestamp = t1 div 1000000, details = Some (str_of e) \<rparr>
         \<and> level (last (to_agent_logs (fetch_trends env t0 t1 st))) \<noteq> ''error''"
proof -
  have g: "dict_get (get_or (visual_analysis st) []) ''gender_style'' ''unisex'' = gender"
    by (simp add: gender visual dict_get_def)
  have oc: "dict_get (get_or (visual_analysis st) []) ''occasion'' ''casual'' = occ"
    by (simp add: occ visual dict_get_def)
  have summary: "to_trend_summary (fetch_trends env t0 t1 st) =
      ''Current fashion trends for '' @ gender @ '' '' @ occ @
      '' wear focus on quality fabrics, versatile pieces, and sustainable choices. Neutral colors and classic silhouettes remain popular.''"
    using fails by (simp add: fetch_trends_def Let_def g oc)
  have logs: "to_agent_logs (fetch_trends env t0 t1 st) =
      get_or (agent_logs st) [] @
      [\<lparr> agent = ''trends'', message = ''Collecting trend context'', level = ''info'',
          timestamp = t0 div 1000000,
          details = Some (take 800 (json_dumps_dict
            [(''gender_style'', JStr gender), (''occasion'', JStr occ),
             (''mode'', JStr (get_or (analysis_mode st) ''deep''))])) \<rparr>,
       \<lparr> agent = ''trends'', message = ''Failed to fetch trends; using fallback'',
          level = ''warning'', timestamp = t1 div 1000000, details = Some (str_of e) \<rparr>]"
    using fails
    by (simp add: fetch_trends_def Let_def g oc append_agent_log_logs details_text_def)
  have s1: "sublist gender (''Current fashion trends for '' @ gender @ '' '' @ occ @
      '' wear focus on quality fabrics, versatile pieces, and sustainable choices. Neutral colors and classic silhouettes remain popular.'')"
    by (rule sublist_appendI)
  have "sublist occ ((''Current fashion trends for '' @ gender @ '' '') @ occ @
      '' wear focus on quality fabrics, versatile pieces, and sustainable choices. Neutral colors and classic silhouettes remain popular.'')"
    by (rule sublist_appendI)
  then have s2: "sublist occ (''Current fashion trends for '' @ gender @ '' '' @ occ @
      '' wear focus on quality fabrics, versatile pieces, and sustainable choices. Neutral colors and classic silhouettes remain popular.'')"
    by simp
  show ?thesis
    unfolding summary logs using s1 s2 by simp
qed

theorem C3_fetch_trends_witness:
  "FetchRelevantTrends services_down ''feminine'' ''casual'' ''Brunch outfit?''
     = Inl (PyException ''service unavailable'')
   \<and> to_trend_summary (fetch_trends services_down 0 0
        (example_state\<lparr> visual_analysis := Some [(''gender_style'', ''feminine'')],
                        user_query := Some ''Brunch outfit?'' \<rparr>)) =
       ''Current fashion trends for feminine casual wear focus on quality fabrics, versatile pieces, and sustainable choices. Neutral colors and classic silhouettes remain popular.''
   \<and> level (last (to_agent_logs (fetch_trends services_down 0 0
        (example_state\<lparr> visual_analysis := Some [(''gender_style'', ''feminine'')],
                        user_query := Some ''Brunch outfit?'' \<rparr>)))) = ''warning''"
proof -
  have h: "FetchRelevantTrends services_down ''feminine'' ''casual'' ''Brunch outfit?''
     = Inl (PyException ''service unavailable'')"
    by (simp add: services_down_def)
  have "FetchRelevantTrends services_down ''feminine'' ''casual''
          (get_or (user_query (example_state\<lparr> visual_analysis :=
              Some [(''gender_style'', ''feminine'')],
              user_query := Some ''Brunch outfit?'' \<rparr>)) [])
     = Inl (PyException ''service unavailable'')"
    by (simp add: services_down_def)
  from C3_fetch_trends_fallback[OF _ _ _ this,
      of "[(''gender_style'', ''feminine'')]" 0 0] h
  show ?thesis by simp
qed

section \<open>Properties of the advisory stage\<close>

text \<open>
  C7. When the call of the advisor raises, \<open>final_report\<close> is the fixed apology,
  the same text for every query, \<open>visual_analysis\<close> and \<open>trend_summary\<close>, and the
  entry logged for the failure has level \<open>error\<close>.
\<close>

theorem C7_synthesize_advice_apology:
  assumes "SynthesizeStylingAdvice env
             (get_or (user_query st) [])
             (dict_get (get_or (visual_analysis st) []) ''gender_style'' ''unisex'')
             (dict_get (get_or (visual_analysis st) []) ''cut'' ''unknown'')
             (dict_get (get_or (visual_analysis st) []) ''color'' ''unknown'')
             (dict_get (get_or (visual_analysis st) []) ''fabric'' ''unknown'')
             (dict_get (get_or (visual_analysis st) []) ''occasion'' ''casual'')
             (get_or (trend_summary st) []) = Inl e"
  shows "ao_final_report (synthesize_advice env t0 t1 st) =
           ''Unable to generate personalized advice at this time. Please try again later or consult with a fashion professional.''
         \<and> ao_agent_logs (synthesize_advice env t0 t1 st) =
             get_or (agent_logs st) [] @
             [\<lparr> agent = ''advisor'', message = ''Generating styling advice'', level = ''info'',
                timestamp = t0 div 1000000,
                details = Some (take 800 (json_dumps_dict
                   [(''mode'', JStr (get_or (analysis_mode st) ''deep''))])) \<rparr>,
              \<lparr> agent = ''advisor'', message = ''Failed to generate styling advice'',
                level = ''error'', timestamp = t1 div 1000000,
                details = Some (str_of e) \<rparr>]"
  using assms
  by (simp add: synthesize_advice_def Let_def append_agent_log_keeps append_agent_log_logs
      details_text_def)

theorem C7_synthesize_advice_witness:
  "ao_final_report (synthesize_advice services_down 0 0 example_state) =
     ''Unable to generate personalized advice at this time. Please try again later or consult with a fashion professional.''
   \<and> map level (ao_agent_logs (synthesize_advice services_down 0 0 example_state)) =
       [''info'', ''error'']"
proof -
  have "SynthesizeStylingAdvice services_down
             (get_or (user_query example_state) [])
             (dict_get (get_or (visual_analysis example_state) []) ''gender_style'' ''unisex'')
             (dict_get (get_or (visual_analysis example_state) []) ''cut'' ''unknown'')
             (dict_get (get_or (visual_analysis example_state) []) ''color'' ''unknown'')
             (dict_get (get_or (visual_analysis example_state) []) ''fabric'' ''unknown'')
             (dict_get (get_or (visual_analysis example_state) []) ''occasion'' ''casual'')
             (get_or (trend_summary example_state) []) = Inl (PyException ''service unavailable'')"
    by (simp add: services_down_def)
  from C7_synthesize_advice_apology[OF this, of 0 0] show ?thesis
    by (simp add: example_state_def)
qed

section \<open>Properties of the image regeneration stage\<close>

lemma first_success_append:
  "first_success (xs @ ys) = (case first_success xs of Some x \<Rightarrow> Some x | None \<Rightarrow> first_success ys)"
  by (induction xs rule: first_success.induct) simp_all

lemma first_success_None: "first_success xs = None \<longleftrightarrow> (\<forall>x \<in> set xs. x = None)"
  by (induction xs rule: first_success.induct) simp_all

lemma download_file_bytes_spec: "download_file_bytes env reference = spec_fetch env reference"
  by (simp add: download_file_bytes_def spec_fetch_def truthy_def py_or_def
      split: sum.splits option.splits)

text \<open>
  The loop body agrees with the three attempts in the order of the specification on
  every part but one whose inline text decodes to no bytes: there the body returns the
  empty bytes.
\<close>

lemma extract_from_part_spec:
  "\<not> decodes_empty env part \<Longrightarrow> extract_from_part env part = spec_extract_part env part"
  by (auto simp add: extract_from_part_def spec_extract_part_def try_inline_binary_def
      try_inline_base64_def try_file_reference_def download_file_bytes_spec truthy_def
      py_or_def Let_def decodes_empty_def
      split: option.splits inline_payload.splits sum.splits)

lemma extract_from_part_empty:
  "decodes_empty env part \<Longrightarrow> \<exists>mime. extract_from_part env part = Some ([], mime)"
  by (auto simp add: extract_from_part_def decodes_empty_def
      split: option.splits inline_payload.splits)

lemma extract_from_parts_spec:
  "(\<forall>p \<in> set ps. \<not> decodes_empty env p) \<Longrightarrow>
     extract_from_parts env ps = first_success (map (spec_extract_part env) ps)"
  by (induction ps) (simp_all add: extract_from_part_spec split: option.splits)

lemma extract_from_iterables_spec:
  "(\<forall>p \<in> set (concat (map (\<lambda>ps. get_or ps []) its)). \<not> decodes_empty env p) \<Longrightarrow>
     extract_from_iterables env its =
       first_success (map (spec_extract_part env) (concat (map (\<lambda>ps. get_or ps []) its)))"
  by (induction its)
     (simp_all add: extract_from_parts_spec first_success_append split: option.splits)

lemma concat_candidate_parts:
  "concat (map (\<lambda>ps. get_or ps []) (candidate_parts cs)) =
     concat (map (\<lambda>c. case content c of None \<Rightarrow> [] | Some ct \<Rightarrow> get_or (parts ct) []) cs)"
  by (induction cs) (simp_all split: option.splits)

lemma parts_iterables_all_parts:
  assumes "response_parts r = Inr own_parts"
  shows "concat (map (\<lambda>ps. get_or ps [])
          (candidate_parts (get_or (candidates r) []) @
           (if truthy own_parts then [own_parts] else []))) = all_parts r"
proof (cases "truthy own_parts")
  case True
  with assms show ?thesis
    by (simp add: all_parts_def concat_candidate_parts)
next
  case False
  then have "get_or own_parts [] = []"
    by (simp add: truthy_def get_or_def split: option.splits)
  with False assms show ?thesis
    by (simp add: all_parts_def concat_candidate_parts)
qed

text \<open>
  Where the specified behaviour holds: when reading \<open>response.parts\<close> does not raise and no part
  decodes to the empty bytes, \<open>_extract_image_bytes\<close> returns the first success over
  all parts, and \<open>(None, None)\<close> when there is none.
\<close>

lemma extract_image_bytes_spec:
  assumes "response_parts r = Inr own_parts"
    and "\<forall>p \<in> set (all_parts r). \<not> decodes_empty env p"
  shows "extract_image_bytes env (Some r) =
     Inr (case spec_extract env r of
            Some (found, mime) \<Rightarrow> (Some found, mime)
          | None \<Rightarrow> (None, None))"
proof -
  note eq = parts_iterables_all_parts[OF assms(1)]
  have "extract_from_iterables env
          (candidate_parts (get_or (candidates r) []) @
           (if truthy own_parts then [own_parts] else [])) = spec_extract env r"
    unfolding spec_extract_def
    using extract_from_iterables_spec[of
        "candidate_parts (get_or (candidates r) []) @
           (if truthy own_parts then [own_parts] else [])" env] assms(2)
    by (simp only: eq)
  then show ?thesis
    by (simp add: extract_image_bytes_def Let_def assms(1) split: option.splits)
qed

lemma extract_image_bytes_raises:
  "response_parts r = Inl e \<Longrightarrow> extract_image_bytes env (Some r) = Inl e"
  by (simp add: extract_image_bytes_def Let_def)

lemma extract_image_bytes_falsy: "extract_image_bytes env None = Inr (None, None)"
  by (simp add: extract_image_bytes_def)

lemma generate_image_from_gemini_none:
  assumes "\<And>msgs. generate_content env IMAGE_MODEL msgs = Inr response"
    and "case extract_image_bytes env response of
           Inl e \<Rightarrow> True
         | Inr (found, mime) \<Rightarrow> \<not> truthy found"
  shows "generate_image_from_gemini env prompt base_image adv = (None, None)"
proof (cases "extract_image_bytes env response")
  case (Inl e)
  with assms(1) show ?thesis
    by (simp add: generate_image_from_gemini_def Let_def split: sum.splits)
next
  case (Inr r)
  obtain image_bytes mime where r: "r = (image_bytes, mime)" by (cases r)
  with assms(2) Inr have "\<not> truthy image_bytes" by simp
  with Inr r assms(1) show ?thesis
    by (simp add: generate_image_from_gemini_def Let_def split: sum.splits)
qed

lemma generate_image_from_gemini_shape:
  "generate_image_from_gemini env prompt base_image adv = (None, None)
   \<or> (\<exists>url mime. generate_image_from_gemini env prompt base_image adv = (Some url, Some mime)
         \<and> url \<noteq> [])"
  by (simp add: generate_image_from_gemini_def Let_def split: sum.splits prod.splits)

lemma generate_outfit_with_raise:
  assumes "callee (generation_prompt_text (get_or (final_report st) [])
              (get_or (visual_analysis st) []) (get_or (user_query st) []))
              (original_image st) (Some (get_or (final_report st) [])) = Inl e"
  shows "oo_generated_image_url (generate_outfit_with callee t0 t1 st) = None
       \<and> oo_image_generation_error (generate_outfit_with callee t0 t1 st) = Some (str_of e)"
  using assms
  by (simp add: generate_outfit_with_def Let_def append_agent_log_keeps)


lemma generate_outfit_with_url:
  assumes "callee (generation_prompt_text (get_or (final_report st) [])
              (get_or (visual_analysis st) []) (get_or (user_query st) []))
              (original_image st) (Some (get_or (final_report st) [])) = Inr (url, mime)"
    and "truthy url"
  shows "oo_generated_image_url (generate_outfit_with callee t0 t1 st) = url
       \<and> oo_image_generation_error (generate_outfit_with callee t0 t1 st) = None"
  using assms
  by (simp add: generate_outfit_with_def Let_def append_agent_log_keeps)

lemma generate_outfit_with_no_content:
  assumes "callee (generation_prompt_text (get_or (final_report st) [])
              (get_or (visual_analysis st) []) (get_or (user_query st) []))
              (original_image st) (Some (get_or (final_report st) [])) = Inr (url, mime)"
    and "\<not> truthy url"
  shows "oo_generated_image_url (generate_outfit_with callee t0 t1 st) = None
       \<and> oo_image_generation_error (generate_outfit_with callee t0 t1 st) =
             Some ''Gemini image generation returned no content''"
  using assms
  by (simp add: generate_outfit_with_def Let_def append_agent_log_keeps)

lemma generate_outfit_with_exclusive:
  "(oo_generated_image_url (generate_outfit_with callee t0 t1 st) = None
      \<or> oo_image_generation_error (generate_outfit_with callee t0 t1 st) = None)
   \<and> (oo_generated_image_url (generate_outfit_with callee t0 t1 st) = None
      \<longleftrightarrow> oo_image_generation_error (generate_outfit_with callee t0 t1 st) \<noteq> None)"
proof (cases "callee (generation_prompt_text (get_or (final_report st) [])
              (get_or (visual_analysis st) []) (get_or (user_query st) []))
              (original_image st) (Some (get_or (final_report st) []))")
  case (Inl e)
  from generate_outfit_with_raise[where callee = callee and st = st, OF Inl]
  show ?thesis by simp
next
  case (Inr r)
  obtain url mime where r: "r = (url, mime)" by (cases r)
  show ?thesis
  proof (cases "truthy url")
    case True
    from generate_outfit_with_url[where callee = callee and st = st, OF Inr[unfolded r] True]
      True
    show ?thesis
      by (auto simp: truthy_def split: option.splits)
  next
    case False
    from generate_outfit_with_no_content[where callee = callee and st = st,
        OF Inr[unfolded r] False]
    show ?thesis by simp
  qed
qed

lemma generate_image_from_gemini_model_raises:
  "GenerativeModel env IMAGE_MODEL = Inl e \<Longrightarrow>
     generate_image_from_gemini env prompt base_image adv = (None, None)"
  by (simp add: generate_image_from_gemini_def)

lemma generate_image_from_gemini_call_raises:
  "(\<And>msgs. generate_content env IMAGE_MODEL msgs = Inl e) \<Longrightarrow>
     generate_image_from_gemini env prompt base_image adv = (None, None)"
  by (simp add: generate_image_from_gemini_def Let_def split: sum.splits)

lemma generate_outfit_no_url:
  assumes "fst (generate_image_from_gemini env
              (generation_prompt_text (get_or (final_report st) [])
                 (get_or (visual_analysis st) []) (get_or (user_query st) []))
              (original_image st) (Some (get_or (final_report st) []))) = None"
  shows "oo_generated_image_url (generate_outfit env t0 t1 st) = None
       \<and> oo_image_generation_error (generate_outfit env t0 t1 st) =
           Some ''Gemini image generation returned no content''"
proof -
  obtain url mime where r: "generate_image_from_gemini env
              (generation_prompt_text (get_or (final_report st) [])
                 (get_or (visual_analysis st) []) (get_or (user_query st) []))
              (original_image st) (Some (get_or (final_report st) [])) = (url, mime)"
    by (cases "generate_image_from_gemini env
              (generation_prompt_text (get_or (final_report st) [])
                 (get_or (visual_analysis st) []) (get_or (user_query st) []))
              (original_image st) (Some (get_or (final_report st) []))")
  with assms have "\<not> truthy url" by (simp add: truthy_def)
  with r show ?thesis
    unfolding generate_outfit_def
    by (intro generate_outfit_with_no_content[where mime = mime]) simp_all
qed

lemma generate_outfit_url:
  assumes "generate_image_from_gemini env
              (generation_prompt_text (get_or (final_report st) [])
                 (get_or (visual_analysis st) []) (get_or (user_query st) []))
              (original_image st) (Some (get_or (final_report st) [])) = (Some u, mime)"
  shows "u \<noteq> []
       \<and> oo_generated_image_url (generate_outfit env t0 t1 st) = Some u
       \<and> oo_image_generation_error (generate_outfit env t0 t1 st) = None"
proof -
  from generate_image_from_gemini_shape[of env
      "generation_prompt_text (get_or (final_report st) [])
         (get_or (visual_analysis st) []) (get_or (user_query st) [])"
      "original_image st" "Some (get_or (final_report st) [])"] assms
  have u: "u \<noteq> []" by auto
  then have "truthy (Some u)" by (simp add: truthy_def)
  with assms u show ?thesis
    unfolding generate_outfit_def
    using generate_outfit_with_url[where url = "Some u" and mime = mime and st = st
        and callee = "\<lambda>prompt base_image stylist_advice.
          Inr (generate_image_from_gemini env prompt base_image stylist_advice)"]
    by simp
qed

text \<open>
  C1. In the result of \<open>generate_outfit\<close>, \<open>generated_image_url\<close> and
  \<open>image_generation_error\<close> are never both set. When image generation yields no data
  URL (the extraction finds no usable bytes or raises, or the model constructor or the
  model call raises; \<open>_generate_image_from_gemini\<close> turns each of these into \<open>(None, None)\<close>),
  the URL is \<open>None\<close> and the error is the non-empty text
  \<open>Gemini image generation returned no content\<close>. When a data URL is produced, it is
  returned and the error is \<open>None\<close>.
\<close>

theorem C1_generate_outfit_exclusive:
  "(let out = generate_outfit env t0 t1 st;
        url = oo_generated_image_url out;
        err = oo_image_generation_error out;
        generated = generate_image_from_gemini env
              (generation_prompt_text (get_or (final_report st) [])
                 (get_or (visual_analysis st) []) (get_or (user_query st) []))
              (original_image st) (Some (get_or (final_report st) []))
    in \<not> (url \<noteq> None \<and> err \<noteq> None)
     \<and> (url = None \<longrightarrow> (\<exists>msg. err = Some msg \<and> msg \<noteq> []))
     \<and> (url \<noteq> None \<longrightarrow> err = None)
     \<and> (fst generated = None \<longrightarrow>
          url = None \<and> err = Some ''Gemini image generation returned no content'')
     \<and> (\<forall>u. fst generated = Some u \<longrightarrow> url = Some u \<and> u \<noteq> [] \<and> err = None)
     \<and> (\<forall>e. GenerativeModel env IMAGE_MODEL = Inl e \<longrightarrow> fst generated = None)
     \<and> (\<forall>e. (\<forall>msgs. generate_content env IMAGE_MODEL msgs = Inl e) \<longrightarrow> fst generated = None)
     \<and> (\<forall>response. (\<forall>msgs. generate_content env IMAGE_MODEL msgs = Inr response)
            \<and> (case extract_image_bytes env response of
                  Inl e \<Rightarrow> True
                | Inr (found, mime) \<Rightarrow> \<not> truthy found) \<longrightarrow> fst generated = None))"
proof -
  define generated where "generated = generate_image_from_gemini env
              (generation_prompt_text (get_or (final_report st) [])
                 (get_or (visual_analysis st) []) (get_or (user_query st) []))
              (original_image st) (Some (get_or (final_report st) []))"
  define url where "url = oo_generated_image_url (generate_outfit env t0 t1 st)"
  define err where "err = oo_image_generation_error (generate_outfit env t0 t1 st)"
  have none: "fst generated = None \<Longrightarrow>
      url = None \<and> err = Some ''Gemini image generation returned no content''"
    unfolding generated_def url_def err_def by (rule generate_outfit_no_url)
  have some: "fst generated = Some u \<Longrightarrow> url = Some u \<and> u \<noteq> [] \<and> err = None" for u
  proof -
    assume "fst generated = Some u"
    then obtain mime where "generated = (Some u, mime)" by (cases generated) simp
    from generate_outfit_url[OF this[unfolded generated_def], of t0 t1]
    show ?thesis by (simp add: url_def err_def)
  qed
  have a: "\<not> (url \<noteq> None \<and> err \<noteq> None)"
    using none some by (cases "fst generated") auto
  have b: "url = None \<longrightarrow> (\<exists>msg. err = Some msg \<and> msg \<noteq> [])"
    using none some by (cases "fst generated") auto
  have c: "url \<noteq> None \<longrightarrow> err = None"
    using none some by (cases "fst generated") auto
  have d: "\<forall>e. GenerativeModel env IMAGE_MODEL = Inl e \<longrightarrow> fst generated = None"
    by (simp add: generated_def generate_image_from_gemini_model_raises)
  have e: "\<forall>e. (\<forall>msgs. generate_content env IMAGE_MODEL msgs = Inl e) \<longrightarrow> fst generated = None"
    by (simp add: generated_def generate_image_from_gemini_call_raises)
  have f: "\<forall>response. (\<forall>msgs. generate_content env IMAGE_MODEL msgs = Inr response)
            \<and> (case extract_image_bytes env response of
                  Inl e \<Rightarrow> True
                | Inr (found, mime) \<Rightarrow> \<not> truthy found) \<longrightarrow> fst generated = None"
    by (simp add: generated_def generate_image_from_gemini_none)
  from a b c none some d e f show ?thesis
    unfolding Let_def generated_def[symmetric] url_def[symmetric] err_def[symmetric]
    by blast
qed

text \<open>
  C4 (fails on the code). Two inputs on which \<open>_extract_image_bytes\<close> does not do what
  the specification says. A part whose inline text decodes to no bytes is returned as
  \<open>(b'', mime)\<close>: the valid image in the part after it is never reached, although the
  first successful extraction over all parts is that image, and with that part alone the
  result is not \<open>(None, None)\<close> although no part yields bytes. And on a response
  without candidates reading \<open>response.parts\<close> raises, so the function raises instead
  of returning \<open>(None, None)\<close>.
\<close>

theorem C4_extract_image_bytes_defects:
  "b64decode services_up ''!!!!'' = Inr []
   \<and> all_parts shadowed_response =
       [undecodable_part, inline_part, undecodable_part, inline_part]
   \<and> extract_image_bytes services_up (Some shadowed_response) =
       Inr (Some [], Some ''image/webp'')
   \<and> spec_extract services_up shadowed_response =
       Some ([0x4D, 0x61, 0x6E], Some ''image/jpeg'')
   \<and> extract_image_bytes services_up (Some undecodable_response) =
       Inr (Some [], Some ''image/webp'')
   \<and> spec_extract services_up undecodable_response = None
   \<and> extract_image_bytes services_up (Some blocked_response) =
       Inl (PyException ''response.parts requires a single candidate'')
   \<and> spec_extract services_up blocked_response = None"
proof -
  have d: "b64decode services_up ''!!!!'' = Inr []"
    by (simp add: services_up_def)
  have u: "spec_extract_part services_up undecodable_part = None"
    by (simp add: spec_extract_part_def try_inline_binary_def try_inline_base64_def
        try_file_reference_def undecodable_part_def d)
  have i: "spec_extract_part services_up inline_part =
      Some ([0x4D, 0x61, 0x6E], Some ''image/jpeg'')"
    by (simp add: spec_extract_part_def try_inline_binary_def inline_part_def)
  have cu: "extract_from_part services_up undecodable_part = Some ([], Some ''image/webp'')"
    by (simp add: extract_from_part_def undecodable_part_def d)
  have p1: "all_parts shadowed_response =
       [undecodable_part, inline_part, undecodable_part, inline_part]"
    by (simp add: all_parts_def shadowed_response_def)
  have p2: "all_parts undecodable_response = [undecodable_part, undecodable_part]"
    by (simp add: all_parts_def undecodable_response_def)
  have p3: "all_parts blocked_response = []"
    by (simp add: all_parts_def blocked_response_def)
  have a: "extract_image_bytes services_up (Some shadowed_response) =
       Inr (Some [], Some ''image/webp'')"
    by (simp add: extract_image_bytes_def shadowed_response_def Let_def truthy_def cu)
  have b: "extract_image_bytes services_up (Some undecodable_response) =
       Inr (Some [], Some ''image/webp'')"
    by (simp add: extract_image_bytes_def undecodable_response_def Let_def truthy_def cu)
  have c: "extract_image_bytes services_up (Some blocked_response) =
       Inl (PyException ''response.parts requires a single candidate'')"
    by (simp add: extract_image_bytes_def blocked_response_def Let_def)
  have sa: "spec_extract services_up shadowed_response =
       Some ([0x4D, 0x61, 0x6E], Some ''image/jpeg'')"
    by (simp add: spec_extract_def p1 u i)
  have sb: "spec_extract services_up undecodable_response = None"
    by (simp add: spec_extract_def p2 u)
  have sc: "spec_extract services_up blocked_response = None"
    by (simp add: spec_extract_def p3)
  from d p1 a sa b sb c sc show ?thesis by blast
qed

text \<open>
  C9. When the model answers and the extraction yields non-empty bytes,
  \<open>_generate_image_from_gemini\<close> returns the URL \<open>data:\<close> + mime + \<open>;base64,\<close> +
  the base64 text of the bytes, where mime is the MIME type the part reports, or
  \<open>image/png\<close> when it reports none (\<open>None\<close> or the empty string).
\<close>

theorem C9_data_url:
  assumes model: "GenerativeModel env IMAGE_MODEL = Inr ()"
    and call: "\<And>msgs. generate_content env IMAGE_MODEL msgs = Inr response"
    and extracted: "extract_image_bytes env response = Inr (Some image_bytes, reported)"
    and usable: "image_bytes \<noteq> []"
    and mime: "mime = (case reported of
                        None \<Rightarrow> ''image/png''
                      | Some m \<Rightarrow> if m = [] then ''image/png'' else m)"
  shows "generate_image_from_gemini env prompt base_image adv =
           (Some (''data:'' @ mime @ '';base64,'' @ b64encode image_bytes), Some mime)"
  using assms
  by (simp add: generate_image_from_gemini_def Let_def truthy_def py_or_def
      split: option.splits)

subsection \<open>The stage on the example services\<close>

lemma b64encode_Man: "b64encode [0x4D, 0x61, 0x6E] = ''TWFu''"
  by (simp add: b64_char_def Let_def)

lemma b64encode_padding:
  "b64encode [0x4D, 0x61] = ''TWE=''"
  "b64encode [0x4D] = ''TQ==''"
  "b64encode [0x4D, 0x61, 0x6E, 0xFF] = ''TWFu/w==''"
  by (simp_all add: b64_char_def Let_def)

lemma extract_example_response:
  "extract_image_bytes services_up (Some example_response) =
     Inr (Some [0x4D, 0x61, 0x6E], Some ''image/jpeg'')"
  by (simp add: extract_image_bytes_def example_response_def Let_def truthy_def
      extract_from_part_def empty_part_def inline_part_def)

text \<open>
  A part with text that does not decode and a file reference: the bytes come from the
  follow-up fetch when the file service answers, and there are none when it fails.
\<close>

lemma extract_remote_response:
  "extract_image_bytes services_up (Some remote_response) = Inr (Some [0x4D, 0x61], None)"
  "extract_image_bytes services_down (Some remote_response) = Inr (None, None)"
  by (simp_all add: extract_image_bytes_def remote_response_def Let_def truthy_def py_or_def
      extract_from_part_def empty_part_def remote_part_def download_file_bytes_def
      services_up_def services_down_def)

lemma services_up_generates:
  "generate_image_from_gemini services_up prompt base_image adv =
     (Some ''data:image/jpeg;base64,TWFu'', Some ''image/jpeg'')"
proof -
  have "generate_content services_up IMAGE_MODEL msgs = Inr (Some example_response)" for msgs
    by (simp add: services_up_def)
  moreover have "GenerativeModel services_up IMAGE_MODEL = Inr ()"
    by (simp add: services_up_def)
  ultimately show ?thesis
    by (simp add: generate_image_from_gemini_def Let_def extract_example_response
        truthy_def py_or_def b64encode_Man del: b64encode.simps)
qed

theorem C1_generate_outfit_witness:
  "oo_generated_image_url (generate_outfit services_up 0 0 example_state) =
     Some ''data:image/jpeg;base64,TWFu''
   \<and> oo_image_generation_error (generate_outfit services_up 0 0 example_state) = None
   \<and> GenerativeModel services_down IMAGE_MODEL = Inl (PyException ''service unavailable'')
   \<and> oo_generated_image_url (generate_outfit services_down 0 0 example_state) = None
   \<and> oo_image_generation_error (generate_outfit services_down 0 0 example_state) =
       Some ''Gemini image generation returned no content''"
proof -
  have down: "GenerativeModel services_down IMAGE_MODEL = Inl (PyException ''service unavailable'')"
    by (simp add: services_down_def)
  from C1_generate_outfit_exclusive[of services_up 0 0 example_state]
  have up_ok: "oo_generated_image_url (generate_outfit services_up 0 0 example_state) =
       Some ''data:image/jpeg;base64,TWFu''
     \<and> oo_image_generation_error (generate_outfit services_up 0 0 example_state) = None"
    by (simp add: Let_def services_up_generates)
  from C1_generate_outfit_exclusive[of services_down 0 0 example_state] down
  have "oo_generated_image_url (generate_outfit services_down 0 0 example_state) = None
     \<and> oo_image_generation_error (generate_outfit services_down 0 0 example_state) =
       Some ''Gemini image generation returned no content''"
    by (simp add: Let_def)
  with up_ok down show ?thesis by simp
qed

theorem C9_data_url_witness:
  "GenerativeModel services_up IMAGE_MODEL = Inr ()
   \<and> extract_image_bytes services_up (Some example_response) =
       Inr (Some [0x4D, 0x61, 0x6E], Some ''image/jpeg'')
   \<and> generate_image_from_gemini services_up ''A navy suit'' None None =
       (Some ''data:image/jpeg;base64,TWFu'', Some ''image/jpeg'')"
proof -
  have m: "GenerativeModel services_up IMAGE_MODEL = Inr ()"
    by (simp add: services_up_def)
  have c: "generate_content services_up IMAGE_MODEL msgs = Inr (Some example_response)" for msgs
    by (simp add: services_up_def)
  have u: "[0x4D, 0x61, 0x6E] \<noteq> ([] :: bytes)" by simp
  from C9_data_url[OF m c extract_example_response u refl, of "''A navy suit''" None None]
  have "generate_image_from_gemini services_up ''A navy suit'' None None =
       (Some ''data:image/jpeg;base64,TWFu'', Some ''image/jpeg'')"
    by (simp add: b64encode_Man del: b64encode.simps)
  with m extract_example_response show ?thesis by simp
qed

section \<open>Properties of the graph\<close>

lemma stage_entries_two:
  "stage_entries ag ta tb [e0, e1] \<longleftrightarrow>
     agent e0 = ag \<and> agent e1 = ag
     \<and> timestamp e0 = ta div 1000000 \<and> timestamp e1 = tb div 1000000
     \<and> message e0 \<notin> set completion_messages
     \<and> message e1 \<in> set completion_messages"
  by (simp add: stage_entries_def)

lemma analyze_image_appends:
  "\<exists>new. vo_agent_logs (analyze_image env ta tb st) = get_or (agent_logs st) [] @ new
         \<and> stage_entries ''vision'' ta tb new"
  by (cases "analyze_image_try env
      (dict_get VISION_MODELS (get_or (analysis_mode st) ''deep'')
         (dict_get VISION_MODELS ''deep'' []))
      (original_image st) (get_or (user_query st) [])")
     (simp_all add: analyze_image_def Let_def append_agent_log_keeps append_agent_log_logs
        stage_entries_two completion_messages_def)

lemma fetch_trends_appends:
  "\<exists>new. to_agent_logs (fetch_trends env ta tb st) = get_or (agent_logs st) [] @ new
         \<and> stage_entries ''trends'' ta tb new"
  by (cases "FetchRelevantTrends env
        (dict_get (get_or (visual_analysis st) []) ''gender_style'' ''unisex'')
        (dict_get (get_or (visual_analysis st) []) ''occasion'' ''casual'')
        (get_or (user_query st) [])")
     (simp_all add: fetch_trends_def Let_def append_agent_log_keeps append_agent_log_logs
        stage_entries_two completion_messages_def)

lemma synthesize_advice_appends:
  "\<exists>new. ao_agent_logs (synthesize_advice env ta tb st) = get_or (agent_logs st) [] @ new
         \<and> stage_entries ''advisor'' ta tb new"
  by (cases "SynthesizeStylingAdvice env
             (get_or (user_query st) [])
             (dict_get (get_or (visual_analysis st) []) ''gender_style'' ''unisex'')
             (dict_get (get_or (visual_analysis st) []) ''cut'' ''unknown'')
             (dict_get (get_or (visual_analysis st) []) ''color'' ''unknown'')
             (dict_get (get_or (visual_analysis st) []) ''fabric'' ''unknown'')
             (dict_get (get_or (visual_analysis st) []) ''occasion'' ''casual'')
             (get_or (trend_summary st) [])")
     (simp_all add: synthesize_advice_def Let_def append_agent_log_keeps append_agent_log_logs
        stage_entries_two completion_messages_def)

lemma generate_outfit_with_appends:
  "\<exists>new. oo_agent_logs (generate_outfit_with callee ta tb st) = get_or (agent_logs st) [] @ new
         \<and> stage_entries ''generator'' ta tb new"
proof (cases "callee (generation_prompt_text (get_or (final_report st) [])
              (get_or (visual_analysis st) []) (get_or (user_query st) []))
              (original_image st) (Some (get_or (final_report st) []))")
  case (Inl e)
  then show ?thesis
    by (simp add: generate_outfit_with_def Let_def append_agent_log_keeps
        append_agent_log_logs stage_entries_two completion_messages_def)
next
  case (Inr r)
  obtain url mime where r: "r = (url, mime)" by (cases r)
  show ?thesis
  proof (cases "truthy url")
    case True
    with Inr r show ?thesis
      by (simp add: generate_outfit_with_def Let_def append_agent_log_keeps
          append_agent_log_logs stage_entries_two completion_messages_def)
  next
    case False
    with Inr r show ?thesis
      by (simp add: generate_outfit_with_def Let_def append_agent_log_keeps
          append_agent_log_logs stage_entries_two completion_messages_def)
  qed
qed

lemma stage_entries_facts:
  assumes "stage_entries ag ta tb new"
  shows "length new = 2"
    and "map timestamp new = [ta div 1000000, tb div 1000000]"
    and "map agent new = [ag, ag]"
    and "filter (\<lambda>e. message e \<in> set completion_messages) new = [last new]"
    and "filter (is_completion ag) new = [last new]"
proof -
  from assms obtain e0 e1 where new: "new = [e0, e1]"
    by (auto simp: stage_entries_def split: list.splits)
  with assms have f: "agent e0 = ag" "agent e1 = ag"
      "timestamp e0 = ta div 1000000" "timestamp e1 = tb div 1000000"
      "message e0 \<notin> set completion_messages" "message e1 \<in> set completion_messages"
    by (simp_all add: stage_entries_two)
  show "length new = 2" by (simp add: new)
  show "map timestamp new = [ta div 1000000, tb div 1000000]" by (simp add: new f)
  show "map agent new = [ag, ag]" by (simp add: new f)
  show "filter (\<lambda>e. message e \<in> set completion_messages) new = [last new]"
    using f by (simp add: new)
  show "filter (is_completion ag) new = [last new]"
    using f by (simp add: new is_completion_def)
qed

lemma node_analyze_image_appends:
  "\<exists>new. logs_of (node_analyze_image env clock st) = logs_of st @ new
         \<and> stage_entries ''vision'' (clock 0) (clock 1) new"
  using analyze_image_appends[of env "clock 0" "clock 1" st]
  by (simp add: node_analyze_image_def logs_of_def Let_def)

lemma node_fetch_trends_appends:
  "\<exists>new. logs_of (node_fetch_trends env clock st) = logs_of st @ new
         \<and> stage_entries ''trends'' (clock 2) (clock 3) new"
  using fetch_trends_appends[of env "clock 2" "clock 3" st]
  by (simp add: node_fetch_trends_def logs_of_def Let_def)

lemma node_synthesize_advice_appends:
  "\<exists>new. logs_of (node_synthesize_advice env clock st) = logs_of st @ new
         \<and> stage_entries ''advisor'' (clock 4) (clock 5) new"
  using synthesize_advice_appends[of env "clock 4" "clock 5" st]
  by (simp add: node_synthesize_advice_def logs_of_def Let_def)

lemma node_generate_outfit_appends:
  "\<exists>new. logs_of (node_generate_outfit env clock st) = logs_of st @ new
         \<and> stage_entries ''generator'' (clock 6) (clock 7) new"
  using generate_outfit_with_appends[of _ "clock 6" "clock 7" st]
  by (simp add: node_generate_outfit_def generate_outfit_def logs_of_def Let_def)

lemma sorted_map_upt:
  assumes "\<And>k. Suc k < n \<Longrightarrow> f k \<le> (f (Suc k) :: nat)"
  shows "sorted (map f [0..<n])"
  using assms by (simp add: sorted_iff_nth_Suc)

lemma agent_graph_invoke_timestamps:
  "map timestamp (logs_of (agent_graph_invoke env clock s0)) =
     map timestamp (logs_of s0) @ map (\<lambda>k. clock k div 1000000) [0..<8]"
proof -
  define s1 where "s1 = node_analyze_image env clock s0"
  define s2 where "s2 = node_fetch_trends env clock s1"
  define s3 where "s3 = node_synthesize_advice env clock s2"
  define s4 where "s4 = node_generate_outfit env clock s3"
  obtain new1 where n1: "logs_of s1 = logs_of s0 @ new1"
      and e1: "stage_entries ''vision'' (clock 0) (clock 1) new1"
    unfolding s1_def using node_analyze_image_appends by blast
  obtain new2 where n2: "logs_of s2 = logs_of s1 @ new2"
      and e2: "stage_entries ''trends'' (clock 2) (clock 3) new2"
    unfolding s2_def using node_fetch_trends_appends by blast
  obtain new3 where n3: "logs_of s3 = logs_of s2 @ new3"
      and e3: "stage_entries ''advisor'' (clock 4) (clock 5) new3"
    unfolding s3_def using node_synthesize_advice_appends by blast
  obtain new4 where n4: "logs_of s4 = logs_of s3 @ new4"
      and e4: "stage_entries ''generator'' (clock 6) (clock 7) new4"
    unfolding s4_def using node_generate_outfit_appends by blast
  have inv: "agent_graph_invoke env clock s0 = s4"
    by (simp add: agent_graph_invoke_def s1_def s2_def s3_def s4_def)
  have upt8: "[0..<8] = [0, 1, 2, 3, 4, 5, 6, 7::nat]"
    by (simp add: upt_rec)
  show ?thesis
    by (simp add: inv n1 n2 n3 n4 upt8 stage_entries_facts(2)[OF e1]
        stage_entries_facts(2)[OF e2] stage_entries_facts(2)[OF e3]
        stage_entries_facts(2)[OF e4])
qed

text \<open>
  C5, with the condition on the clock. Along one run of the graph the log only grows: every stage leaves the
  entries it found in place and appends two of its own, of which exactly one is a
  completion (terminal-outcome) entry, so the run adds eight entries, four of them
  completions. The timestamps of the appended entries are the successive readings of the
  wall clock in whole seconds; they are non-decreasing in append order provided the
  readings do not decrease during the run.
\<close>

theorem C5_agent_logs_append_only:
  "(let s1 = node_analyze_image env clock s0;
        s2 = node_fetch_trends env clock s1;
        s3 = node_synthesize_advice env clock s2;
        s4 = node_generate_outfit env clock s3;
        new1 = drop (length (logs_of s0)) (logs_of s1);
        new2 = drop (length (logs_of s1)) (logs_of s2);
        new3 = drop (length (logs_of s2)) (logs_of s3);
        new4 = drop (length (logs_of s3)) (logs_of s4)
    in agent_graph_invoke env clock s0 = s4
     \<and> logs_of s1 = logs_of s0 @ new1 \<and> logs_of s2 = logs_of s1 @ new2
     \<and> logs_of s3 = logs_of s2 @ new3 \<and> logs_of s4 = logs_of s3 @ new4
     \<and> length (logs_of s0) \<le> length (logs_of s1)
     \<and> length (logs_of s1) \<le> length (logs_of s2)
     \<and> length (logs_of s2) \<le> length (logs_of s3)
     \<and> length (logs_of s3) \<le> length (logs_of s4)
     \<and> stage_entries ''vision'' (clock 0) (clock 1) new1
     \<and> stage_entries ''trends'' (clock 2) (clock 3) new2
     \<and> stage_entries ''advisor'' (clock 4) (clock 5) new3
     \<and> stage_entries ''generator'' (clock 6) (clock 7) new4
     \<and> length (filter (\<lambda>e. message e \<in> set completion_messages) new1) = 1
     \<and> length (filter (\<lambda>e. message e \<in> set completion_messages) new2) = 1
     \<and> length (filter (\<lambda>e. message e \<in> set completion_messages) new3) = 1
     \<and> length (filter (\<lambda>e. message e \<in> set completion_messages) new4) = 1
     \<and> logs_of s4 = logs_of s0 @ new1 @ new2 @ new3 @ new4
     \<and> length (logs_of s4) = length (logs_of s0) + 8
     \<and> 4 \<le> length (logs_of s4)
     \<and> map timestamp (new1 @ new2 @ new3 @ new4) = map (\<lambda>k. clock k div 1000000) [0..<8]
     \<and> ((\<forall>k<7. clock k \<le> clock (Suc k))
          \<longrightarrow> sorted (map timestamp (new1 @ new2 @ new3 @ new4))))"
proof -
  define s1 where "s1 = node_analyze_image env clock s0"
  define s2 where "s2 = node_fetch_trends env clock s1"
  define s3 where "s3 = node_synthesize_advice env clock s2"
  define s4 where "s4 = node_generate_outfit env clock s3"
  obtain new1 where n1: "logs_of s1 = logs_of s0 @ new1"
      and e1: "stage_entries ''vision'' (clock 0) (clock 1) new1"
    unfolding s1_def using node_analyze_image_appends by blast
  obtain new2 where n2: "logs_of s2 = logs_of s1 @ new2"
      and e2: "stage_entries ''trends'' (clock 2) (clock 3) new2"
    unfolding s2_def using node_fetch_trends_appends by blast
  obtain new3 where n3: "logs_of s3 = logs_of s2 @ new3"
      and e3: "stage_entries ''advisor'' (clock 4) (clock 5) new3"
    unfolding s3_def using node_synthesize_advice_appends by blast
  obtain new4 where n4: "logs_of s4 = logs_of s3 @ new4"
      and e4: "stage_entries ''generator'' (clock 6) (clock 7) new4"
    unfolding s4_def using node_generate_outfit_appends by blast
  have d1: "drop (length (logs_of s0)) (logs_of s1) = new1" by (simp add: n1)
  have d2: "drop (length (logs_of s1)) (logs_of s2) = new2" by (simp add: n2)
  have d3: "drop (length (logs_of s2)) (logs_of s3) = new3" by (simp add: n3)
  have d4: "drop (length (logs_of s3)) (logs_of s4) = new4" by (simp add: n4)
  have inv: "agent_graph_invoke env clock s0 = s4"
    by (simp add: agent_graph_invoke_def s1_def s2_def s3_def s4_def)
  have len: "length new1 = 2" "length new2 = 2" "length new3 = 2" "length new4 = 2"
    using e1 e2 e3 e4 by (simp_all add: stage_entries_facts(1))
  have c1: "length (filter (\<lambda>e. message e \<in> set completion_messages) new1) = 1"
    using stage_entries_facts(4)[OF e1] by simp
  have c2: "length (filter (\<lambda>e. message e \<in> set completion_messages) new2) = 1"
    using stage_entries_facts(4)[OF e2] by simp
  have c3: "length (filter (\<lambda>e. message e \<in> set completion_messages) new3) = 1"
    using stage_entries_facts(4)[OF e3] by simp
  have c4: "length (filter (\<lambda>e. message e \<in> set completion_messages) new4) = 1"
    using stage_entries_facts(4)[OF e4] by simp
  have all: "logs_of s4 = logs_of s0 @ new1 @ new2 @ new3 @ new4"
    by (simp add: n1 n2 n3 n4)
  have upt8: "[0..<8] = [0, 1, 2, 3, 4, 5, 6, 7::nat]"
    by (simp add: upt_rec)
  have ts: "map timestamp (new1 @ new2 @ new3 @ new4) = map (\<lambda>k. clock k div 1000000) [0..<8]"
    by (simp add: stage_entries_facts(2)[OF e1] stage_entries_facts(2)[OF e2]
        stage_entries_facts(2)[OF e3] stage_entries_facts(2)[OF e4] upt8)
  have srt: "(\<forall>k<7. clock k \<le> clock (Suc k))
      \<longrightarrow> sorted (map timestamp (new1 @ new2 @ new3 @ new4))"
  proof
    assume mono: "\<forall>k<7. clock k \<le> clock (Suc k)"
    have "sorted (map (\<lambda>k. clock k div 1000000) [0..<8])"
    proof (rule sorted_map_upt)
      fix k :: nat
      assume "Suc k < 8"
      then have "clock k \<le> clock (Suc k)" using mono by simp
      then show "clock k div 1000000 \<le> clock (Suc k) div 1000000"
        by (rule div_le_mono)
    qed
    then show "sorted (map timestamp (new1 @ new2 @ new3 @ new4))"
      by (simp only: ts)
  qed
  have l8: "length (logs_of s4) = length (logs_of s0) + 8"
    by (simp add: all len)
  show ?thesis
    unfolding Let_def s1_def[symmetric] s2_def[symmetric] s3_def[symmetric] s4_def[symmetric]
      d1 d2 d3 d4
    using inv n1 n2 n3 n4 e1 e2 e3 e4 c1 c2 c3 c4 all l8 ts srt
    by simp
qed

theorem C5_agent_logs_witness:
  "map timestamp (logs_of (agent_graph_invoke services_up example_clock example_state)) =
     [1700000000, 1700000000, 1700000000, 1700000001,
      1700000001, 1700000002, 1700000002, 1700000002]
   \<and> sorted (map timestamp (logs_of (agent_graph_invoke services_up example_clock example_state)))
   \<and> length (logs_of (agent_graph_invoke services_up example_clock example_state)) = 8"
proof -
  define s1 where "s1 = node_analyze_image services_up example_clock example_state"
  define s2 where "s2 = node_fetch_trends services_up example_clock s1"
  define s3 where "s3 = node_synthesize_advice services_up example_clock s2"
  define s4 where "s4 = node_generate_outfit services_up example_clock s3"
  define news where "news = drop (length (logs_of example_state)) (logs_of s1)
     @ drop (length (logs_of s1)) (logs_of s2)
     @ drop (length (logs_of s2)) (logs_of s3)
     @ drop (length (logs_of s3)) (logs_of s4)"
  note c = C5_agent_logs_append_only[of services_up example_clock example_state,
      unfolded Let_def, folded s1_def, folded s2_def, folded s3_def, folded s4_def,
      folded news_def]
  have l0: "logs_of example_state = []"
    by (simp add: logs_of_def example_state_def)
  have mono: "\<forall>k<7. example_clock k \<le> example_clock (Suc k)"
    by (simp add: example_clock_def)
  from c have inv: "agent_graph_invoke services_up example_clock example_state = s4"
    by (rule conjunct1)
  have all: "logs_of s4 = logs_of example_state @ news"
    using c by blast
  have ts: "map timestamp news = map (\<lambda>k. example_clock k div 1000000) [0..<8]"
    using c by blast
  have srt: "sorted (map timestamp news)"
    using c mono by blast
  have logs: "logs_of (agent_graph_invoke services_up example_clock example_state) = news"
    by (simp add: inv all l0)
  have vals: "map (\<lambda>k. example_clock k div 1000000) [0..<8] =
     [1700000000, 1700000000, 1700000000, 1700000001,
      1700000001, 1700000002, 1700000002, 1700000002]"
  proof -
    have "[0..<8] = [0, 1, 2, 3, 4, 5, 6, 7::nat]"
      by (simp add: upt_rec)
    then show ?thesis
      by (simp add: example_clock_def)
  qed
  have tsv: "map timestamp news =
     [1700000000, 1700000000, 1700000000, 1700000001,
      1700000001, 1700000002, 1700000002, 1700000002]"
    using ts vals by (rule trans)
  then have "length (map timestamp news) = 8" by simp
  then have l8: "length news = 8" by simp
  from tsv srt l8 show ?thesis
    by (simp add: logs)
qed

text \<open>
  C5, the timestamps without a condition on the clock. \<open>append_agent_log\<close> stamps an
  entry with the wall clock (\<open>datetime.now\<close>), which can be set back while a run is
  under way. On a clock that is set back by five seconds after the vision stage, the
  entries of the later stages carry earlier timestamps than those before them.
\<close>

theorem C5_timestamps_counterexample:
  "map timestamp (logs_of (agent_graph_invoke services_up stepping_back_clock example_state)) =
     [1700000005, 1700000005, 1700000005, 1700000001,
      1700000001, 1700000002, 1700000002, 1700000002]
   \<and> \<not> sorted (map timestamp
          (logs_of (agent_graph_invoke services_up stepping_back_clock example_state)))"
proof -
  have l0: "logs_of example_state = []"
    by (simp add: logs_of_def example_state_def)
  have upt8: "[0..<8] = [0, 1, 2, 3, 4, 5, 6, 7::nat]"
    by (simp add: upt_rec)
  have vals: "map (\<lambda>k. stepping_back_clock k div 1000000) [0..<8] =
     [1700000005, 1700000005, 1700000005, 1700000001,
      1700000001, 1700000002, 1700000002, 1700000002]"
    by (simp add: upt8 stepping_back_clock_def)
  have ts: "map timestamp
      (logs_of (agent_graph_invoke services_up stepping_back_clock example_state)) =
     [1700000005, 1700000005, 1700000005, 1700000001,
      1700000001, 1700000002, 1700000002, 1700000002]"
    by (simp only: agent_graph_invoke_timestamps l0 vals list.map append_Nil)
  have "\<not> sorted [1700000005, 1700000005, 1700000005, 1700000001,
      1700000001, 1700000002, 1700000002, 1700000002 :: nat]"
    by simp
  with ts show ?thesis by simp
qed

section \<open>Properties of the route\<close>

lemma exceeds_sublist: "sublist ''exceeds 10MB limit'' ''File size exceeds 10MB limit''"
proof -
  have "sublist ''exceeds 10MB limit'' (''File size '' @ ''exceeds 10MB limit'' @ [])"
    by (rule sublist_appendI)
  then show ?thesis by simp
qed

lemma validate_request_cases:
  "map_of (files req) ''image'' = None \<Longrightarrow>
     validate_request env req = Inr (Invalid [(''error'', ''No image file provided'')] 400)"
  "map_of (files req) ''image'' = Some upload \<Longrightarrow> filename upload = [] \<Longrightarrow>
     validate_request env req = Inr (Invalid [(''error'', ''No file selected'')] 400)"
  "map_of (files req) ''image'' = Some upload \<Longrightarrow> filename upload \<noteq> [] \<Longrightarrow>
     \<not> spec_allowed (filename upload) \<Longrightarrow>
     \<exists>msg. validate_request env req = Inr (Invalid [(''error'', msg)] 400)"
  "map_of (files req) ''image'' = Some upload \<Longrightarrow> filename upload \<noteq> [] \<Longrightarrow>
     spec_allowed (filename upload) \<Longrightarrow>
     validate_request env req = Inr (Valid upload (dict_get (form req) ''query'' DEFAULT_QUERY))"
  by (simp_all add: validate_request_def allowed_file_spec)

text \<open>
  C8. The route answers 400 without invoking the graph when the request has no
  \<open>image\<close> file (body \<open>{"error": "No image file provided"}\<close>), when the file
  name is empty, when the name has no allowed extension, and when the payload is larger
  than 10 MB (\<open>10 * 1024 * 1024\<close> bytes; the body then contains
  \<open>exceeds 10MB limit\<close>).
\<close>

theorem C8_validation_rejects:
  "(let out = analyze_outfit env clock current_mode req in
     (map_of (files req) ''image'' = None \<longrightarrow>
        status out = 400
        \<and> body out = ErrorBody [(''error'', ''No image file provided'')]
        \<and> invoked_with out = None)
   \<and> (\<forall>file. map_of (files req) ''image'' = Some file \<and> filename file = [] \<longrightarrow>
        status out = 400
        \<and> body out = ErrorBody [(''error'', ''No file selected'')]
        \<and> invoked_with out = None)
   \<and> (\<forall>file. map_of (files req) ''image'' = Some file \<and> filename file \<noteq> []
          \<and> \<not> spec_allowed (filename file) \<longrightarrow>
        status out = 400
        \<and> (\<exists>msg. body out = ErrorBody [(''error'', msg)])
        \<and> invoked_with out = None)
   \<and> (\<forall>file payload. map_of (files req) ''image'' = Some file \<and> filename file \<noteq> []
          \<and> spec_allowed (filename file)
          \<and> read_result file = Inr payload \<and> length payload > 10 * 1024 * 1024 \<longrightarrow>
        status out = 400
        \<and> body out = ErrorBody [(''error'', ''File size exceeds 10MB limit'')]
        \<and> sublist ''exceeds 10MB limit'' ''File size exceeds 10MB limit''
        \<and> invoked_with out = None))"
proof -
  have a: "map_of (files req) ''image'' = None \<longrightarrow>
        status (analyze_outfit env clock current_mode req) = 400
        \<and> body (analyze_outfit env clock current_mode req) =
            ErrorBody [(''error'', ''No image file provided'')]
        \<and> invoked_with (analyze_outfit env clock current_mode req) = None"
    by (simp add: analyze_outfit_def validate_request_cases(1))
  have b: "\<forall>file. map_of (files req) ''image'' = Some file \<and> filename file = [] \<longrightarrow>
        status (analyze_outfit env clock current_mode req) = 400
        \<and> body (analyze_outfit env clock current_mode req) =
            ErrorBody [(''error'', ''No file selected'')]
        \<and> invoked_with (analyze_outfit env clock current_mode req) = None"
    by (simp add: analyze_outfit_def validate_request_cases(2))
  have c: "\<forall>file. map_of (files req) ''image'' = Some file \<and> filename file \<noteq> []
          \<and> \<not> spec_allowed (filename file) \<longrightarrow>
        status (analyze_outfit env clock current_mode req) = 400
        \<and> (\<exists>msg. body (analyze_outfit env clock current_mode req) = ErrorBody [(''error'', msg)])
        \<and> invoked_with (analyze_outfit env clock current_mode req) = None"
  proof (intro allI impI)
    fix upload
    assume "map_of (files req) ''image'' = Some upload \<and> filename upload \<noteq> []
          \<and> \<not> spec_allowed (filename upload)"
    then obtain msg where "validate_request env req = Inr (Invalid [(''error'', msg)] 400)"
      using validate_request_cases(3)[where req = req and upload = upload] by blast
    then show "status (analyze_outfit env clock current_mode req) = 400
        \<and> (\<exists>msg. body (analyze_outfit env clock current_mode req) = ErrorBody [(''error'', msg)])
        \<and> invoked_with (analyze_outfit env clock current_mode req) = None"
      by (simp add: analyze_outfit_def)
  qed
  have d: "\<forall>file payload. map_of (files req) ''image'' = Some file \<and> filename file \<noteq> []
          \<and> spec_allowed (filename file)
          \<and> read_result file = Inr payload \<and> length payload > 10 * 1024 * 1024 \<longrightarrow>
        status (analyze_outfit env clock current_mode req) = 400
        \<and> body (analyze_outfit env clock current_mode req) =
            ErrorBody [(''error'', ''File size exceeds 10MB limit'')]
        \<and> sublist ''exceeds 10MB limit'' ''File size exceeds 10MB limit''
        \<and> invoked_with (analyze_outfit env clock current_mode req) = None"
    by (simp add: analyze_outfit_def validate_request_cases(4) MAX_FILE_SIZE_def
        exceeds_sublist)
  from a b c d show ?thesis
    unfolding Let_def by blast
qed

lemma valid_request_invokes:
  assumes "map_of (files req) ''image'' = Some upload"
    and "filename upload \<noteq> []" and "spec_allowed (filename upload)"
    and "read_result upload = Inr payload" and "length payload \<le> MAX_FILE_SIZE"
    and "configure_lm env current_mode
           (if lower (dict_get (form req) ''mode'' ''deep'') \<in> {''quick'', ''deep''}
            then lower (dict_get (form req) ''mode'' ''deep'') else ''deep'') = (Inr name, cm)"
  shows "status (analyze_outfit env clock current_mode req) = 200
       \<and> (\<exists>initial. invoked_with (analyze_outfit env clock current_mode req) = Some initial
            \<and> original_image initial = Some payload \<and> agent_logs initial = Some [])"
  using assms
  by (simp add: analyze_outfit_def validate_request_cases(4) Let_def)

theorem C8_validation_witness:
  "status (analyze_outfit services_up example_clock None \<lparr> files = [], form = [] \<rparr>) = 400
   \<and> body (analyze_outfit services_up example_clock None \<lparr> files = [], form = [] \<rparr>) =
       ErrorBody [(''error'', ''No image file provided'')]
   \<and> invoked_with (analyze_outfit services_up example_clock None \<lparr> files = [], form = [] \<rparr>)
       = None
   \<and> status (analyze_outfit services_up example_clock None
        \<lparr> files = [(''image'', \<lparr> filename = [], read_result = Inr [] \<rparr>)], form = [] \<rparr>) = 400
   \<and> \<not> spec_allowed ''notes.txt''
   \<and> status (analyze_outfit services_up example_clock None
        \<lparr> files = [(''image'', \<lparr> filename = ''notes.txt'', read_result = Inr [1, 2] \<rparr>)],
          form = [] \<rparr>) = 400
   \<and> invoked_with (analyze_outfit services_up example_clock None
        \<lparr> files = [(''image'', \<lparr> filename = ''notes.txt'', read_result = Inr [1, 2] \<rparr>)],
          form = [] \<rparr>) = None
   \<and> spec_allowed ''big.jpg''
   \<and> length (replicate 10485761 (0 :: 8 word)) > 10 * 1024 * 1024
   \<and> status (analyze_outfit services_up example_clock None
        \<lparr> files = [(''image'', \<lparr> filename = ''big.jpg'',
                                 read_result = Inr (replicate 10485761 0) \<rparr>)],
          form = [] \<rparr>) = 400
   \<and> body (analyze_outfit services_up example_clock None
        \<lparr> files = [(''image'', \<lparr> filename = ''big.jpg'',
                                 read_result = Inr (replicate 10485761 0) \<rparr>)],
          form = [] \<rparr>) = ErrorBody [(''error'', ''File size exceeds 10MB limit'')]
   \<and> invoked_with (analyze_outfit services_up example_clock None
        \<lparr> files = [(''image'', \<lparr> filename = ''big.jpg'',
                                 read_result = Inr (replicate 10485761 0) \<rparr>)],
          form = [] \<rparr>) = None"
proof -
  have no_txt: "\<not> spec_allowed ''notes.txt''" by code_simp
  have jpg: "spec_allowed ''big.jpg''" by code_simp
  have big: "length (replicate 10485761 (0 :: 8 word)) > 10 * 1024 * 1024" by simp
  note a = C8_validation_rejects[of services_up example_clock None
      "\<lparr> files = [], form = [] \<rparr>", unfolded Let_def]
  note b = C8_validation_rejects[of services_up example_clock None
      "\<lparr> files = [(''image'', \<lparr> filename = [], read_result = Inr [] \<rparr>)], form = [] \<rparr>",
      unfolded Let_def]
  note c = C8_validation_rejects[of services_up example_clock None
      "\<lparr> files = [(''image'', \<lparr> filename = ''notes.txt'', read_result = Inr [1, 2] \<rparr>)],
         form = [] \<rparr>", unfolded Let_def]
  note d = C8_validation_rejects[of services_up example_clock None
      "\<lparr> files = [(''image'', \<lparr> filename = ''big.jpg'',
                                 read_result = Inr (replicate 10485761 0) \<rparr>)],
         form = [] \<rparr>", unfolded Let_def]
  from a have a': "status (analyze_outfit services_up example_clock None \<lparr> files = [], form = [] \<rparr>) = 400
   \<and> body (analyze_outfit services_up example_clock None \<lparr> files = [], form = [] \<rparr>) =
       ErrorBody [(''error'', ''No image file provided'')]
   \<and> invoked_with (analyze_outfit services_up example_clock None \<lparr> files = [], form = [] \<rparr>)
       = None"
    by simp
  from b have b': "status (analyze_outfit services_up example_clock None
        \<lparr> files = [(''image'', \<lparr> filename = [], read_result = Inr [] \<rparr>)], form = [] \<rparr>) = 400"
    by simp
  from c no_txt have c': "status (analyze_outfit services_up example_clock None
        \<lparr> files = [(''image'', \<lparr> filename = ''notes.txt'', read_result = Inr [1, 2] \<rparr>)],
          form = [] \<rparr>) = 400
   \<and> invoked_with (analyze_outfit services_up example_clock None
        \<lparr> files = [(''image'', \<lparr> filename = ''notes.txt'', read_result = Inr [1, 2] \<rparr>)],
          form = [] \<rparr>) = None"
    by simp
  from d jpg big have d': "status (analyze_outfit services_up example_clock None
        \<lparr> files = [(''image'', \<lparr> filename = ''big.jpg'',
                                 read_result = Inr (replicate 10485761 0) \<rparr>)],
          form = [] \<rparr>) = 400
   \<and> body (analyze_outfit services_up example_clock None
        \<lparr> files = [(''image'', \<lparr> filename = ''big.jpg'',
                                 read_result = Inr (replicate 10485761 0) \<rparr>)],
          form = [] \<rparr>) = ErrorBody [(''error'', ''File size exceeds 10MB limit'')]
   \<and> invoked_with (analyze_outfit services_up example_clock None
        \<lparr> files = [(''image'', \<lparr> filename = ''big.jpg'',
                                 read_result = Inr (replicate 10485761 0) \<rparr>)],
          form = [] \<rparr>) = None"
    by simp
  from a' b' c' d' no_txt jpg big show ?thesis by blast
qed

end
